theory Spec2Isabelle
  imports Main "HOL-Library.Word" "HOL-Library.Multiset"
begin

section \<open>Requests and the request-size approximation\<close>

text \<open>
  Go's \<open>int\<close> is taken at 64 bits (the platforms gin-metrics is deployed on) and
  \<open>int64\<close> is 64 bits everywhere: both are \<open>64 word\<close>, so \<open>+\<close> wraps as Go's does
  and \<open>int(r.ContentLength)\<close> is the identity. \<open>len\<close> of a Go string counts bytes, as
  \<open>length\<close> of a \<open>string\<close> does.
\<close>

type_synonym go_int = "64 word"
type_synonym int64 = "64 word"

definition len :: "string \<Rightarrow> go_int" where
  "len s = word_of_nat (length s)"

record http_URL =
  Path :: string

text \<open>
  \<open>http.Request\<close>, with the fields the package reads. \<open>URL\<close> is a pointer and may be
  nil. \<open>Header\<close> is a Go map from a name to its values: the list holds its entries in
  the order the \<open>range\<close> loop happens to visit them.
\<close>

record http_Request =
  URL :: "http_URL option"
  Method :: string
  Proto :: string
  Header :: "(string \<times> string list) list"
  Host :: string
  ContentLength :: int64

text \<open>The inner loop \<open>for _, value := range values { s += len(value) }\<close>.\<close>

fun range_values :: "go_int \<Rightarrow> string list \<Rightarrow> go_int" where
  "range_values s [] = s"
| "range_values s (v # values) = range_values (s + len v) values"

text \<open>The outer loop \<open>for name, values := range r.Header { s += len(name); ... }\<close>.\<close>

fun range_Header :: "go_int \<Rightarrow> (string \<times> string list) list \<Rightarrow> go_int" where
  "range_Header s [] = s"
| "range_Header s ((name, values) # hs) = range_Header (range_values (s + len name) values) hs"

definition computeApproximateRequestSize :: "http_Request \<Rightarrow> go_int" where
  "computeApproximateRequestSize r =
     (let s0 = (case URL r of None \<Rightarrow> 0 | Some u \<Rightarrow> len (Path u));
          s1 = s0 + len (Method r);
          s2 = s1 + len (Proto r);
          s3 = range_Header s2 (Header r);
          s4 = s3 + len (Host r)
      in if ContentLength r \<noteq> - 1 then s4 + ContentLength r else s4)"


definition header_length :: "(string \<times> string list) list \<Rightarrow> go_int" where
  "header_length hs = sum_list (map (\<lambda>(name, values). len name + sum_list (map len values)) hs)"

section \<open>Collectors and the heap they live in\<close>

text \<open>
  A \<open>prometheus.Collector\<close> interface value is nil or points to an object: \<open>addr option\<close>.
  The objects are the results of the eight constructors of the client library, kept
  with the arguments \<open>NewMetric\<close> passes; the label names and the updates a collector
  has received are kept as they were given.
\<close>

type_synonym addr = nat
type_synonym Time = int
type_synonym Duration = int

record Opts =
  Subsystem :: string
  opts_Name :: string
  Help :: string

datatype CollectorObj =
    CounterVec Opts "string list"
  | Counter Opts
  | GaugeVec Opts "string list"
  | Gauge Opts
  | HistogramVec Opts "string list"
  | Histogram Opts
  | SummaryVec Opts "string list"
  | Summary Opts

text \<open>
  What an update function hands to a collector: \<open>Inc()\<close> or \<open>Observe(float64 ...)\<close>,
  with the label values of \<open>WithLabelValues\<close> (none for a scalar). The observed number is
  kept before its conversion to \<open>float64\<close>: an integer, or a duration to be divided by
  \<open>time.Millisecond\<close>.
\<close>

datatype observed = FromInt int | Millis Duration

datatype Update = Inc "string list" | Observe "string list" observed

record Cell =
  obj :: CollectorObj
  updates :: "Update list"

text \<open>
  The heap of collectors (an address is an index of \<open>cells\<close>) and the clock:
  \<open>clock h n\<close> is what the \<open>n\<close>-th reading of the clock returns, \<open>reads h\<close> counts the
  readings made so far.
\<close>

record Heap =
  cells :: "Cell list"
  clock :: "nat \<Rightarrow> Time"
  reads :: nat

definition time_Now :: "Heap \<Rightarrow> Time \<times> Heap" where
  "time_Now h = (clock h (reads h), h\<lparr>reads := Suc (reads h)\<rparr>)"

definition time_Since :: "Time \<Rightarrow> Heap \<Rightarrow> Duration \<times> Heap" where
  "time_Since t h = (clock h (reads h) - t, h\<lparr>reads := Suc (reads h)\<rparr>)"

definition alloc :: "CollectorObj \<Rightarrow> Heap \<Rightarrow> addr option \<times> Heap" where
  "alloc ob h = (Some (length (cells h)), h\<lparr>cells := cells h @ [\<lparr>obj = ob, updates = []\<rparr>]\<rparr>)"

definition obj_at :: "Heap \<Rightarrow> addr option \<Rightarrow> CollectorObj option" where
  "obj_at h c =
     (case c of
        None \<Rightarrow> None
      | Some a \<Rightarrow> if a < length (cells h) then Some (obj (cells h ! a)) else None)"

definition record_update :: "addr \<Rightarrow> Update \<Rightarrow> Heap \<Rightarrow> Heap" where
  "record_update a u h =
     h\<lparr>cells := (cells h)[a := (cells h ! a)\<lparr>updates := updates (cells h ! a) @ [u]\<rparr>]\<rparr>"

definition counter_value :: "Heap \<Rightarrow> addr \<Rightarrow> nat" where
  "counter_value h a = length (filter (\<lambda>u. case u of Inc _ \<Rightarrow> True | Observe _ _ \<Rightarrow> False) (updates (cells h ! a)))"

datatype panic = InterfaceConversion | NilPointerDereference

text \<open>
  The type assertions of the update functions. \<open>collector.(*prometheus.CounterVec)\<close> and
  \<open>collector.(*prometheus.HistogramVec)\<close> name a concrete type: they succeed on an object
  of exactly that type. \<open>collector.(prometheus.Counter)\<close> and
  \<open>collector.(prometheus.Summary)\<close> name an interface: they succeed on every object whose
  methods include the interface's, which for \<open>Counter\<close> (\<open>Inc\<close>, \<open>Add\<close>) are counters and
  gauges and for \<open>Summary\<close> (\<open>Observe\<close>) are summaries and histograms. Each yields the
  address asserted, or nothing where Go panics (a nil interface included).
\<close>

definition as_CounterVec :: "Heap \<Rightarrow> addr option \<Rightarrow> addr option" where
  "as_CounterVec h c = (case obj_at h c of Some (CounterVec _ _) \<Rightarrow> c | _ \<Rightarrow> None)"

definition as_HistogramVec :: "Heap \<Rightarrow> addr option \<Rightarrow> addr option" where
  "as_HistogramVec h c = (case obj_at h c of Some (HistogramVec _ _) \<Rightarrow> c | _ \<Rightarrow> None)"

definition as_Counter :: "Heap \<Rightarrow> addr option \<Rightarrow> addr option" where
  "as_Counter h c = (case obj_at h c of Some (Counter _) \<Rightarrow> c | Some (Gauge _) \<Rightarrow> c | _ \<Rightarrow> None)"

definition as_Summary :: "Heap \<Rightarrow> addr option \<Rightarrow> addr option" where
  "as_Summary h c = (case obj_at h c of Some (Summary _) \<Rightarrow> c | Some (Histogram _) \<Rightarrow> c | _ \<Rightarrow> None)"

section \<open>The request context\<close>

text \<open>
  \<open>gin.Context\<close> as the update functions read it once the handlers have run: the
  request, \<open>Writer.Status()\<close>, \<open>Writer.Size()\<close>, \<open>HandlerName()\<close> and the route parameters.
\<close>

record gin_Context =
  Request :: http_Request
  Status :: int
  Size :: int
  HandlerName :: string
  Params :: "(string \<times> string) list"

text \<open>\<open>strconv.Itoa\<close>: the decimal digits, with a minus sign below zero.\<close>

fun digits :: "nat \<Rightarrow> string" where
  "digits n = (if n < 10 then [char_of (48 + n)] else digits (n div 10) @ [char_of (48 + n mod 10)])"

declare digits.simps [simp del]

definition Itoa :: "int \<Rightarrow> string" where
  "Itoa i = (if i < 0 then CHR ''-'' # digits (nat (- i)) else digits (nat i))"

section \<open>Metric definitions\<close>

type_synonym ExecFn_t = "addr option \<Rightarrow> Time \<Rightarrow> gin_Context \<Rightarrow> Heap \<Rightarrow> panic option \<times> Heap"

text \<open>
  The struct \<open>Metric\<close>. An update function returns the panic it raised, if any, with the
  heap as it left it. \<open>once\<close> is the done flag of the \<open>sync.Once\<close>.
\<close>

record Metric =
  collector :: "addr option"
  Name :: string
  Description :: string
  Type :: string
  Args :: "string list"
  ExecFn :: ExecFn_t
  once :: bool

type_synonym Mapper = "gin_Context \<Rightarrow> string"

definition RequestTotalWithMapper_ExecFn :: "Mapper \<Rightarrow> ExecFn_t" where
  "RequestTotalWithMapper_ExecFn mapper coll startTime ctx h =
     (case as_CounterVec h coll of
        None \<Rightarrow> (Some InterfaceConversion, h)
      | Some a \<Rightarrow>
          (None, record_update a
             (Inc [Itoa (Status ctx), Method (Request ctx), HandlerName ctx, Host (Request ctx), mapper ctx]) h))"

definition RequestTotalWithMapper :: "Mapper \<Rightarrow> Metric" where
  "RequestTotalWithMapper mapper =
     \<lparr>collector = None, Name = ''requests_total'',
      Description = ''How many HTTP requests processed, partitioned by status code and HTTP method.'',
      Type = ''counter_vec'', Args = [''code'', ''method'', ''handler'', ''host'', ''url''],
      ExecFn = RequestTotalWithMapper_ExecFn mapper, once = False\<rparr>"

definition RequestTotal_ExecFn :: ExecFn_t where
  "RequestTotal_ExecFn coll startTime ctx h =
     (case as_CounterVec h coll of
        None \<Rightarrow> (Some InterfaceConversion, h)
      | Some a \<Rightarrow>
          (case URL (Request ctx) of
             None \<Rightarrow> (Some NilPointerDereference, h)
           | Some u \<Rightarrow>
               (None, record_update a
                  (Inc [Itoa (Status ctx), Method (Request ctx), HandlerName ctx, Host (Request ctx), Path u]) h)))"

definition RequestTotal :: Metric where
  "RequestTotal =
     \<lparr>collector = None, Name = ''requests_total'',
      Description = ''How many HTTP requests processed, partitioned by status code and HTTP method.'',
      Type = ''counter_vec'', Args = [''code'', ''method'', ''handler'', ''host'', ''url''],
      ExecFn = RequestTotal_ExecFn, once = False\<rparr>"

definition RequestDuration_ExecFn :: ExecFn_t where
  "RequestDuration_ExecFn coll startTime ctx h =
     (case as_HistogramVec h coll of
        None \<Rightarrow> (Some InterfaceConversion, h)
      | Some a \<Rightarrow>
          (case URL (Request ctx) of
             None \<Rightarrow> (Some NilPointerDereference, h)
           | Some u \<Rightarrow>
               (let (d, h1) = time_Since startTime h
                in (None, record_update a
                      (Observe [Itoa (Status ctx), Method (Request ctx), Path u] (Millis d)) h1))))"

definition RequestDuration :: Metric where
  "RequestDuration =
     \<lparr>collector = None, Name = ''request_duration_seconds'',
      Description = ''The HTTP request latencies in Millisecond.'',
      Type = ''histogram_vec'', Args = [''code'', ''method'', ''url''],
      ExecFn = RequestDuration_ExecFn, once = False\<rparr>"

definition ResponseSize_ExecFn :: ExecFn_t where
  "ResponseSize_ExecFn coll startTime ctx h =
     (case as_Summary h coll of
        None \<Rightarrow> (Some InterfaceConversion, h)
      | Some a \<Rightarrow> (None, record_update a (Observe [] (FromInt (Size ctx))) h))"

definition ResponseSize :: Metric where
  "ResponseSize =
     \<lparr>collector = None, Name = ''response_size_bytes'',
      Description = ''The HTTP response sizes in bytes.'',
      Type = ''summary'', Args = [], ExecFn = ResponseSize_ExecFn, once = False\<rparr>"

definition RequestSize_ExecFn :: ExecFn_t where
  "RequestSize_ExecFn coll startTime ctx h =
     (case as_Summary h coll of
        None \<Rightarrow> (Some InterfaceConversion, h)
      | Some a \<Rightarrow>
          (None, record_update a
             (Observe [] (FromInt (sint (computeApproximateRequestSize (Request ctx))))) h))"

definition RequestSize :: Metric where
  "RequestSize =
     \<lparr>collector = None, Name = ''request_size_bytes'',
      Description = ''The HTTP request sizes in bytes.'',
      Type = ''summary'', Args = [], ExecFn = RequestSize_ExecFn, once = False\<rparr>"

definition SlowRequestTotal_ExecFn :: "Duration \<Rightarrow> ExecFn_t" where
  "SlowRequestTotal_ExecFn slowTime coll startTime ctx h =
     (let (d, h1) = time_Since startTime h
      in if d > slowTime
         then (case as_Counter h1 coll of
                 None \<Rightarrow> (Some InterfaceConversion, h1)
               | Some a \<Rightarrow> (None, record_update a (Inc []) h1))
         else (None, h1))"

definition SlowRequestTotal :: "Duration \<Rightarrow> Metric" where
  "SlowRequestTotal slowTime =
     \<lparr>collector = None, Name = ''slow_request_total'',
      Description = ''The slow HTTP request total.'',
      Type = ''counter'', Args = [], ExecFn = SlowRequestTotal_ExecFn slowTime, once = False\<rparr>"

text \<open>\<open>NewMetric\<close>: the switch on \<open>m.Type\<close>; no case matches an unknown type and \<open>metric\<close> stays nil.\<close>

definition opts_of :: "Metric \<Rightarrow> string \<Rightarrow> Opts" where
  "opts_of m subsystem = \<lparr>Subsystem = subsystem, opts_Name = Name m, Help = Description m\<rparr>"

definition NewMetric :: "Metric \<Rightarrow> string \<Rightarrow> Heap \<Rightarrow> addr option \<times> Heap" where
  "NewMetric m subsystem h =
     (if Type m = ''counter_vec'' then alloc (CounterVec (opts_of m subsystem) (Args m)) h
      else if Type m = ''counter'' then alloc (Counter (opts_of m subsystem)) h
      else if Type m = ''gauge_vec'' then alloc (GaugeVec (opts_of m subsystem) (Args m)) h
      else if Type m = ''gauge'' then alloc (Gauge (opts_of m subsystem)) h
      else if Type m = ''histogram_vec'' then alloc (HistogramVec (opts_of m subsystem) (Args m)) h
      else if Type m = ''histogram'' then alloc (Histogram (opts_of m subsystem)) h
      else if Type m = ''summary_vec'' then alloc (SummaryVec (opts_of m subsystem) (Args m)) h
      else if Type m = ''summary'' then alloc (Summary (opts_of m subsystem)) h
      else (None, h))"

definition recognized :: "string \<Rightarrow> bool" where
  "recognized t = (t \<in> set [''counter_vec'', ''counter'', ''gauge_vec'', ''gauge'',
                            ''histogram_vec'', ''histogram'', ''summary_vec'', ''summary''])"

definition vector_kind :: "string \<Rightarrow> bool" where
  "vector_kind t = (t \<in> set [''counter_vec'', ''gauge_vec'', ''histogram_vec'', ''summary_vec''])"

section \<open>The instrumentation instance and the world around it\<close>

type_synonym mref = nat

text \<open>
  What the package does to its surroundings, in the order it does it: the routes and
  middleware it installs on a \<open>gin.Engine\<close> (named by a number), the calls of
  \<open>c.Next()\<close>, \<open>Exec\<close> and \<open>prometheus.Register\<close>, the HTTP requests it hands to a
  client's \<open>Do\<close> (nil when \<open>http.NewRequest\<close> returned none), the errors it logs with
  their tag, and the start of the push loop.
\<close>

record Outgoing =
  req_method :: string
  req_url :: string
  req_header :: "(string \<times> string) list"
  req_body :: string

datatype Event =
    RouterUse nat
  | RouterGET nat string bool
  | NextCalled
  | ExecCalled mref
  | RegisterCalled "addr option"
  | LoggerError string string
  | ClientDo "Outgoing option"
  | PushStarted Duration

text \<open>
  \<open>mets\<close> is the memory holding the \<open>Metric\<close> structs: \<open>p.metrics\<close> holds pointers, and
  one definition may be listed twice or shared by two instances. \<open>registry\<close> lists the
  collectors the default registry of the client library has accepted.
\<close>

record World =
  mets :: "mref \<Rightarrow> Metric"
  heap :: Heap
  registry :: "(addr \<times> CollectorObj) list"
  trace :: "Event list"

text \<open>
  The struct \<open>Prometheus\<close>. \<open>accounts\<close> is a Go map that may be nil; the list holds its
  entries in the order a \<open>range\<close> loop happens to visit them. The logger is left out: an
  error logged is an event of the trace.
\<close>

record Prometheus =
  router :: "nat option"
  exportRouter :: "nat option"
  accounts :: "(string \<times> string) list option"
  metricsBasicAuth :: string
  PushInterval :: Duration
  PushGatewayURL :: string
  metrics :: "mref list"
  metricsPath :: string
  jobName :: string
  LoggerTag :: string
  InstanceName :: string
  MetricsURL :: string

text \<open>
  What the libraries answer: the host name, the base64 encoder, whether
  \<open>http.NewRequest\<close> returns a request for a method and URL, and the error (if any)
  \<open>prometheus.Register\<close> returns for a collector, given the collectors accepted before.
  Library calls are taken to return; the panics modelled are the package's own.
\<close>

record Env =
  Hostname :: string
  EncodeToString :: "string \<Rightarrow> string"
  NewRequest_ok :: "string \<Rightarrow> string \<Rightarrow> bool"
  Register :: "(addr \<times> CollectorObj) list \<Rightarrow> (addr \<times> CollectorObj) option \<Rightarrow> string option"

text \<open>
  What the network answers on one tick of the push loop: for the fetch, the body read
  from the response, or nothing when \<open>Do\<close> returned a nil response; for the push, the
  error of \<open>Do\<close>, if any.
\<close>

record Tick =
  get_answer :: "Outgoing option \<Rightarrow> string option"
  post_answer :: "Outgoing option \<Rightarrow> string option"

definition Second :: Duration where
  "Second = 1000000000"

definition DefaultPushInterval :: Duration where
  "DefaultPushInterval = 5 * Second"

definition DefaultJobName :: string where
  "DefaultJobName = ''gin''"

definition DefaultMetricsPath :: string where
  "DefaultMetricsPath = ''metrics''"

subsection \<open>Options\<close>

type_synonym Option = "Prometheus \<Rightarrow> Prometheus"

definition WithRouter :: "nat \<Rightarrow> Option" where
  "WithRouter r p = p\<lparr>router := Some r\<rparr>"

definition WithExportRouter :: "nat \<Rightarrow> Option" where
  "WithExportRouter r p = p\<lparr>exportRouter := Some r\<rparr>"

definition WithMetricsPath :: "string \<Rightarrow> Option" where
  "WithMetricsPath s p = p\<lparr>metricsPath := s\<rparr>"

definition WithMetrics :: "mref list \<Rightarrow> Option" where
  "WithMetrics m p = p\<lparr>metrics := metrics p @ m\<rparr>"

definition WithPushGatewayUrl :: "string \<Rightarrow> Option" where
  "WithPushGatewayUrl pgw p = p\<lparr>PushGatewayURL := pgw\<rparr>"

definition WithExportAccounts :: "(string \<times> string) list option \<Rightarrow> Option" where
  "WithExportAccounts a p = p\<lparr>accounts := a\<rparr>"

definition WithPushInterval :: "Duration \<Rightarrow> Option" where
  "WithPushInterval t p = p\<lparr>PushInterval := t\<rparr>"

definition WithPushPushGatewayURL :: "string \<Rightarrow> Option" where
  "WithPushPushGatewayURL url p = p\<lparr>PushGatewayURL := url\<rparr>"

definition WithJobName :: "string \<Rightarrow> Option" where
  "WithJobName j p = p\<lparr>jobName := j\<rparr>"

definition WithLoggerTag :: "string \<Rightarrow> Option" where
  "WithLoggerTag tag p = p\<lparr>LoggerTag := tag\<rparr>"

definition WithInstanceName :: "string \<Rightarrow> Option" where
  "WithInstanceName name p = p\<lparr>InstanceName := name\<rparr>"

definition WithMetricsURL :: "string \<Rightarrow> Option" where
  "WithMetricsURL url p = p\<lparr>MetricsURL := url\<rparr>"

subsection \<open>The methods of a metric definition\<close>

text \<open>\<open>Exec\<close> calls the update function on the cached collector, whatever it is.\<close>

definition Exec :: "mref \<Rightarrow> Time \<Rightarrow> gin_Context \<Rightarrow> World \<Rightarrow> panic option \<times> World" where
  "Exec r startTime ctx w =
     (let m = mets w r;
          (res, h') = ExecFn m (collector m) startTime ctx (heap w)
      in (res, w\<lparr>heap := h', trace := trace w @ [ExecCalled r]\<rparr>))"

text \<open>
  \<open>Collector\<close>, one call running alone: \<open>m.once.Do\<close> runs the closure when the once is
  not done, and the cached collector is returned.
\<close>

definition Collector :: "mref \<Rightarrow> string \<Rightarrow> World \<Rightarrow> addr option \<times> World" where
  "Collector r job w =
     (let m = mets w r
      in if once m then (collector m, w)
         else (let (c, h') = NewMetric m job (heap w)
               in (c, w\<lparr>mets := (mets w)(r := m\<lparr>collector := c, once := True\<rparr>), heap := h'\<rparr>)))"

subsection \<open>The request interceptor\<close>

text \<open>The loop \<open>for _, metric := range p.metrics { metric.Exec(start, c) }\<close>: a panic leaves it.\<close>

fun range_metrics :: "mref list \<Rightarrow> Time \<Rightarrow> gin_Context \<Rightarrow> World \<Rightarrow> panic option \<times> World" where
  "range_metrics [] start c w = (None, w)"
| "range_metrics (r # rs) start c w =
     (case Exec r start c w of
        (Some e, w') \<Rightarrow> (Some e, w')
      | (None, w') \<Rightarrow> range_metrics rs start c w')"

text \<open>
  The handler \<open>HandlerFunc\<close> returns, run on a context. \<open>next\<close> is what \<open>c.Next()\<close> does
  to the context (the handlers after this one), or the panic it raises. The result is
  the panic that left the handler, if any, the context and the world.
\<close>

definition HandlerFunc ::
  "Prometheus \<Rightarrow> (gin_Context \<Rightarrow> panic + gin_Context) \<Rightarrow> gin_Context \<Rightarrow> World \<Rightarrow> panic option \<times> gin_Context \<times> World" where
  "HandlerFunc p next c w =
     (case URL (Request c) of
        None \<Rightarrow> (Some NilPointerDereference, c, w)
      | Some u \<Rightarrow>
          if Path u = metricsPath p then (None, c, w)
          else (let (start, h1) = time_Now (heap w);
                    w1 = w\<lparr>heap := h1, trace := trace w @ [NextCalled]\<rparr>
                in case next c of
                     Inl e \<Rightarrow> (Some e, c, w1)
                   | Inr c' \<Rightarrow> (let (res, w2) = range_metrics (metrics p) start c' w1 in (res, c', w2))))"

subsection \<open>Registration\<close>

text \<open>
  The loop of \<open>registerMetrics\<close>: the collector of each definition is handed to
  \<open>prometheus.Register\<close>, and an error it returns is logged.
\<close>

definition register_arg :: "Heap \<Rightarrow> addr option \<Rightarrow> (addr \<times> CollectorObj) option" where
  "register_arg h c =
     (case c of
        None \<Rightarrow> None
      | Some a \<Rightarrow> (case obj_at h c of None \<Rightarrow> None | Some ob \<Rightarrow> Some (a, ob)))"

text \<open>The body of the loop, for the definition \<open>r\<close>.\<close>

definition register_one :: "Env \<Rightarrow> Prometheus \<Rightarrow> mref \<Rightarrow> World \<Rightarrow> World" where
  "register_one env p r w =
     (let (c, w1) = Collector r (jobName p) w;
          arg = register_arg (heap w1) c;
          w2 = w1\<lparr>trace := trace w1 @ [RegisterCalled c]\<rparr>
      in case Register env (registry w2) arg of
           Some err \<Rightarrow> w2\<lparr>trace := trace w2 @ [LoggerError (LoggerTag p) err]\<rparr>
         | None \<Rightarrow> w2\<lparr>registry := registry w2 @ (case arg of None \<Rightarrow> [] | Some x \<Rightarrow> [x])\<rparr>)"

fun range_register :: "Env \<Rightarrow> Prometheus \<Rightarrow> mref list \<Rightarrow> World \<Rightarrow> World" where
  "range_register env p [] w = w"
| "range_register env p (r # rs) w = range_register env p rs (register_one env p r w)"

definition registerMetrics :: "Env \<Rightarrow> Prometheus \<Rightarrow> World \<Rightarrow> World" where
  "registerMetrics env p w = range_register env p (metrics p) w"

subsection \<open>The push forwarder\<close>

definition http_NewRequest :: "Env \<Rightarrow> string \<Rightarrow> string \<Rightarrow> string \<Rightarrow> Outgoing option" where
  "http_NewRequest env method url body =
     (if NewRequest_ok env method url
      then Some \<lparr>req_method = method, req_url = url, req_header = [], req_body = body\<rparr>
      else None)"

text \<open>
  \<open>fetchMetrics\<close>. Both errors are discarded: \<open>req.Header.Set\<close> dereferences a nil
  request, and \<open>defer resp.Body.Close()\<close> dereferences a nil response.
\<close>

definition fetchMetrics :: "Env \<Rightarrow> Tick \<Rightarrow> Prometheus \<Rightarrow> Event list \<Rightarrow> (panic + string) \<times> Event list" where
  "fetchMetrics env tk p tr =
     (let req = http_NewRequest env ''GET'' (MetricsURL p) []
      in if metricsBasicAuth p \<noteq> [] \<and> req = None then (Inl NilPointerDereference, tr)
         else (let req' = (if metricsBasicAuth p \<noteq> []
                           then map_option (\<lambda>q. q\<lparr>req_header := [(''Authorization'', metricsBasicAuth p)]\<rparr>) req
                           else req);
                   tr' = tr @ [ClientDo req']
               in case get_answer tk req' of
                    None \<Rightarrow> (Inl NilPointerDereference, tr')
                  | Some body \<Rightarrow> (Inr body, tr')))"

definition GetPushGatewayURL :: "Prometheus \<Rightarrow> string" where
  "GetPushGatewayURL p = PushGatewayURL p @ ''/metrics/job/'' @ jobName p @ ''/instance/'' @ InstanceName p"

definition sendToPushGateway :: "Env \<Rightarrow> Tick \<Rightarrow> Prometheus \<Rightarrow> string \<Rightarrow> Event list \<Rightarrow> Event list" where
  "sendToPushGateway env tk p body tr =
     (if MetricsURL p = [] then tr
      else (let req = http_NewRequest env ''POST'' (GetPushGatewayURL p) body;
                tr' = tr @ [ClientDo req]
            in case post_answer tk req of
                 None \<Rightarrow> tr'
               | Some err \<Rightarrow> tr' @ [LoggerError (LoggerTag p) err]))"

text \<open>
  The goroutine of \<open>startPush\<close>, over the ticks the ticker delivers:
  \<open>for range ticker.C { p.sendToPushGateway(p.fetchMetrics()) }\<close>. A panic in it is not
  recovered anywhere: it ends the loop, and the process with it.
\<close>

fun range_ticker :: "Env \<Rightarrow> Prometheus \<Rightarrow> Tick list \<Rightarrow> Event list \<Rightarrow> panic option \<times> Event list" where
  "range_ticker env p [] tr = (None, tr)"
| "range_ticker env p (tk # tks) tr =
     (case fetchMetrics env tk p tr of
        (Inl e, tr1) \<Rightarrow> (Some e, tr1)
      | (Inr body, tr1) \<Rightarrow> range_ticker env p tks (sendToPushGateway env tk p body tr1))"

definition startPush :: "Prometheus \<Rightarrow> World \<Rightarrow> World" where
  "startPush p w = w\<lparr>trace := trace w @ [PushStarted (PushInterval p)]\<rparr>"

definition is_POST :: "Event \<Rightarrow> bool" where
  "is_POST e = (case e of ClientDo (Some q) \<Rightarrow> req_method q = ''POST'' | _ \<Rightarrow> False)"

definition posts :: "Event list \<Rightarrow> Event list" where
  "posts tr = filter is_POST tr"

subsection \<open>Construction\<close>

definition defaults :: "Env \<Rightarrow> Prometheus" where
  "defaults env =
     \<lparr>router = None, exportRouter = None, accounts = None, metricsBasicAuth = [],
      PushInterval = DefaultPushInterval, PushGatewayURL = [], metrics = [],
      metricsPath = DefaultMetricsPath, jobName = DefaultJobName, LoggerTag = ''gin-metrics'',
      InstanceName = Hostname env, MetricsURL = []\<rparr>"

definition apply_opts :: "Option list \<Rightarrow> Prometheus \<Rightarrow> Prometheus" where
  "apply_opts opts p = foldl (\<lambda>q opt. opt q) p opts"

text \<open>The loop over \<open>p.accounts\<close> that stops after its first entry.\<close>

definition first_account_auth :: "Env \<Rightarrow> Prometheus \<Rightarrow> Prometheus" where
  "first_account_auth env p =
     (case accounts p of
        Some ((username, password) # _) \<Rightarrow>
          p\<lparr>metricsBasicAuth := EncodeToString env (username @ '':'' @ password)\<rparr>
      | _ \<Rightarrow> p)"

definition New :: "Env \<Rightarrow> Option list \<Rightarrow> World \<Rightarrow> Prometheus \<times> World" where
  "New env opts w =
     (let p = apply_opts opts (defaults env);
          w1 = (case router p of None \<Rightarrow> w | Some r \<Rightarrow> w\<lparr>trace := trace w @ [RouterUse r]\<rparr>);
          (p2, w2) =
            (case exportRouter p of
               None \<Rightarrow> (p, w1)
             | Some e \<Rightarrow>
                 if accounts p \<noteq> None
                 then (first_account_auth env p, w1\<lparr>trace := trace w1 @ [RouterGET e (metricsPath p) True]\<rparr>)
                 else (p, w1\<lparr>trace := trace w1 @ [RouterGET e (metricsPath p) False]\<rparr>));
          w3 = registerMetrics env p2 w2;
          w4 = (if PushGatewayURL p2 \<noteq> [] then startPush p2 w3 else w3)
      in (p2, w4))"

section \<open>Concurrent calls of \<open>Collector\<close>\<close>

text \<open>
  Several goroutines call \<open>Collector\<close> on one definition. Each is at one of the points
  below; a step of a goroutine is one access to the shared memory. \<open>m.once.Do(f)\<close> is
  the standard library's: it loads the done flag and returns when it is set; otherwise
  it locks the mutex of the once, loads the flag again, runs \<open>f\<close> and stores the flag
  if it was still unset, and unlocks. \<open>f\<close> is the closure
  \<open>m.collector = NewMetric(m, jobName)\<close>, and the call ends with
  \<open>return m.collector\<close>.
\<close>

datatype pc =
    AtDo string
  | AtLock string
  | AtCheck string
  | AtClosure string
  | AtStoreDone
  | AtUnlock
  | AtReturn
  | Returned "addr option"

text \<open>\<open>news\<close> counts the calls of \<open>NewMetric\<close> made so far; \<open>mutex\<close> tells whether the mutex is held.\<close>

record Conc =
  world :: World
  mutex :: bool
  news :: nat
  pcs :: "pc list"

definition goto :: "nat \<Rightarrow> pc \<Rightarrow> Conc \<Rightarrow> Conc" where
  "goto i q st = st\<lparr>pcs := (pcs st)[i := q]\<rparr>"

text \<open>One step of goroutine \<open>i\<close>; a goroutine waiting for the mutex, or done, stays where it is.\<close>

definition step :: "mref \<Rightarrow> nat \<Rightarrow> Conc \<Rightarrow> Conc" where
  "step r i st =
     (if length (pcs st) \<le> i then st
      else (let w = world st; m = mets w r
            in case pcs st ! i of
                 AtDo job \<Rightarrow> goto i (if once m then AtReturn else AtLock job) st
               | AtLock job \<Rightarrow> if mutex st then st else goto i (AtCheck job) (st\<lparr>mutex := True\<rparr>)
               | AtCheck job \<Rightarrow> goto i (if once m then AtUnlock else AtClosure job) st
               | AtClosure job \<Rightarrow>
                   (let (c, h') = NewMetric m job (heap w)
                    in goto i AtStoreDone
                         (st\<lparr>world := w\<lparr>mets := (mets w)(r := m\<lparr>collector := c\<rparr>), heap := h'\<rparr>,
                             news := Suc (news st)\<rparr>))
               | AtStoreDone \<Rightarrow> goto i AtUnlock (st\<lparr>world := w\<lparr>mets := (mets w)(r := m\<lparr>once := True\<rparr>)\<rparr>\<rparr>)
               | AtUnlock \<Rightarrow> goto i AtReturn (st\<lparr>mutex := False\<rparr>)
               | AtReturn \<Rightarrow> goto i (Returned (collector m)) st
               | Returned c \<Rightarrow> st))"

text \<open>A schedule names the goroutine that takes each step.\<close>

fun run :: "mref \<Rightarrow> nat list \<Rightarrow> Conc \<Rightarrow> Conc" where
  "run r [] st = st"
| "run r (i # sched) st = run r sched (step r i st)"

definition start_calls :: "World \<Rightarrow> string list \<Rightarrow> Conc" where
  "start_calls w jobs = \<lparr>world = w, mutex = False, news = 0, pcs = map AtDo jobs\<rparr>"

definition returned :: "Conc \<Rightarrow> addr option list" where
  "returned st = concat (map (\<lambda>q. case q of Returned c \<Rightarrow> [c] | _ \<Rightarrow> []) (pcs st))"

definition all_returned :: "Conc \<Rightarrow> bool" where
  "all_returned st = list_all (\<lambda>q. case q of Returned c \<Rightarrow> True | _ \<Rightarrow> False) (pcs st)"

text \<open>
  The goroutines between \<open>o.m.Lock()\<close> and \<open>o.m.Unlock()\<close>, and what holds of every
  state the calls can reach, for a definition of kind \<open>ty\<close> first called when \<open>n0\<close>
  collectors were allocated: the mutex is held by exactly the goroutine in that
  section, if any; \<open>NewMetric\<close> has been called once when the closure has run and not
  at all before; and a goroutine past \<open>Do\<close> sees the once done.
\<close>

definition crit :: "pc \<Rightarrow> bool" where
  "crit q = (case q of AtCheck _ \<Rightarrow> True | AtClosure _ \<Rightarrow> True | AtStoreDone \<Rightarrow> True | AtUnlock \<Rightarrow> True | _ \<Rightarrow> False)"

definition built :: "mref \<Rightarrow> Conc \<Rightarrow> bool" where
  "built r st = (once (mets (world st) r) \<or> (\<exists>i<length (pcs st). pcs st ! i = AtStoreDone))"

definition pc_ok :: "Metric \<Rightarrow> pc \<Rightarrow> bool" where
  "pc_ok m q =
     (case q of
        AtClosure _ \<Rightarrow> \<not> once m
      | AtStoreDone \<Rightarrow> \<not> once m
      | AtUnlock \<Rightarrow> once m
      | AtReturn \<Rightarrow> once m
      | Returned c \<Rightarrow> once m \<and> c = collector m
      | _ \<Rightarrow> True)"

definition once_inv :: "mref \<Rightarrow> string \<Rightarrow> nat \<Rightarrow> Conc \<Rightarrow> bool" where
  "once_inv r ty n0 st =
     (Type (mets (world st) r) = ty
      \<and> (\<forall>i<length (pcs st). crit (pcs st ! i) \<longrightarrow> mutex st)
      \<and> (\<forall>i<length (pcs st). \<forall>j<length (pcs st). crit (pcs st ! i) \<longrightarrow> crit (pcs st ! j) \<longrightarrow> i = j)
      \<and> (mutex st \<longrightarrow> (\<exists>i<length (pcs st). crit (pcs st ! i)))
      \<and> news st = (if built r st then 1 else 0)
      \<and> length (cells (heap (world st))) = n0 + (if built r st \<and> recognized ty then 1 else 0)
      \<and> (built r st \<longrightarrow> collector (mets (world st) r) = (if recognized ty then Some n0 else None))
      \<and> (\<forall>i<length (pcs st). pc_ok (mets (world st) r) (pcs st ! i)))"

text \<open>The steps a goroutine still has to take, at most.\<close>

definition rank :: "pc \<Rightarrow> nat" where
  "rank q =
     (case q of
        AtDo _ \<Rightarrow> 7 | AtLock _ \<Rightarrow> 6 | AtCheck _ \<Rightarrow> 5 | AtClosure _ \<Rightarrow> 4
      | AtStoreDone \<Rightarrow> 3 | AtUnlock \<Rightarrow> 2 | AtReturn \<Rightarrow> 1 | Returned _ \<Rightarrow> 0)"

section \<open>The standard base64 encoding\<close>

text \<open>
  \<open>base64.StdEncoding.EncodeToString\<close> as RFC 4648 defines it, to run the model on
  concrete accounts; the theorems hold for any encoder.
\<close>

definition b64_alphabet :: string where
  "b64_alphabet = ''ABCDEFGHIJKLMNOPQRSTUVWXYZabcdefghijklmnopqrstuvwxyz0123456789+/''"

definition b64_digit :: "nat \<Rightarrow> char" where
  "b64_digit n = b64_alphabet ! (n mod 64)"

fun b64_groups :: "nat list \<Rightarrow> string" where
  "b64_groups [] = []"
| "b64_groups [a] = [b64_digit (a div 4), b64_digit ((a mod 4) * 16), CHR ''='', CHR ''='']"
| "b64_groups [a, b] =
     [b64_digit (a div 4), b64_digit ((a mod 4) * 16 + b div 16), b64_digit ((b mod 16) * 4), CHR ''='']"
| "b64_groups (a # b # c # rest) =
     [b64_digit (a div 4), b64_digit ((a mod 4) * 16 + b div 16),
      b64_digit ((b mod 16) * 4 + c div 64), b64_digit (c mod 64)] @ b64_groups rest"

definition StdEncoding :: "string \<Rightarrow> string" where
  "StdEncoding s = b64_groups (map of_char s)"

section \<open>Observations on a trace, and the example program\<close>

definition exec_calls :: "Event list \<Rightarrow> mref list" where
  "exec_calls tr = concat (map (\<lambda>e. case e of ExecCalled r \<Rightarrow> [r] | _ \<Rightarrow> []) tr)"

definition logged :: "Event list \<Rightarrow> (string \<times> string) list" where
  "logged tr = concat (map (\<lambda>e. case e of LoggerError tag err \<Rightarrow> [(tag, err)] | _ \<Rightarrow> []) tr)"

text \<open>The custom metric of the example program: a counter that counts every request.\<close>

definition customMetric_ExecFn :: ExecFn_t where
  "customMetric_ExecFn coll startTime ctx h =
     (case as_Counter h coll of
        None \<Rightarrow> (Some InterfaceConversion, h)
      | Some a \<Rightarrow> (None, record_update a (Inc []) h))"

definition customMetric :: Metric where
  "customMetric =
     \<lparr>collector = None, Name = ''test_metric'', Description = ''Counter test metric'',
      Type = ''counter'', Args = [], ExecFn = customMetric_ExecFn, once = False\<rparr>"

text \<open>
  Surroundings to run the model in: a registry that refuses a collector whose
  subsystem and name are those of one it holds, a clock that advances by a
  millisecond at every reading, and a world with nothing allocated.
\<close>

definition opts_of_obj :: "CollectorObj \<Rightarrow> Opts" where
  "opts_of_obj ob =
     (case ob of
        CounterVec o' _ \<Rightarrow> o' | Counter o' \<Rightarrow> o' | GaugeVec o' _ \<Rightarrow> o' | Gauge o' \<Rightarrow> o'
      | HistogramVec o' _ \<Rightarrow> o' | Histogram o' \<Rightarrow> o' | SummaryVec o' _ \<Rightarrow> o' | Summary o' \<Rightarrow> o')"

definition same_name :: "CollectorObj \<Rightarrow> CollectorObj \<Rightarrow> bool" where
  "same_name x y =
     (Subsystem (opts_of_obj x) = Subsystem (opts_of_obj y) \<and> opts_Name (opts_of_obj x) = opts_Name (opts_of_obj y))"

definition name_taken :: "(addr \<times> CollectorObj) list \<Rightarrow> CollectorObj \<Rightarrow> bool" where
  "name_taken reg ob = list_ex (\<lambda>x. same_name (snd x) ob) reg"

definition sample_Env :: Env where
  "sample_Env =
     \<lparr>Hostname = ''host-1'', EncodeToString = StdEncoding, NewRequest_ok = (\<lambda>method url. True),
      Register = (\<lambda>reg c. case c of None \<Rightarrow> None
                          | Some x \<Rightarrow> if name_taken reg (snd x) then Some ''duplicate metrics collector registration attempted'' else None)\<rparr>"

definition empty_World :: "(mref \<Rightarrow> Metric) \<Rightarrow> World" where
  "empty_World ms =
     \<lparr>mets = ms, heap = \<lparr>cells = [], clock = (\<lambda>n. 1000000 * int n), reads = 0\<rparr>, registry = [], trace = []\<rparr>"

definition sample_Context :: "string \<Rightarrow> gin_Context" where
  "sample_Context path =
     \<lparr>Request = \<lparr>URL = Some \<lparr>Path = path\<rparr>, Method = ''GET'', Proto = ''HTTP/1.1'', Header = [],
                 Host = ''h'', ContentLength = - 1\<rparr>,
      Status = 0, Size = 0, HandlerName = [], Params = []\<rparr>"

text \<open>The handlers after the interceptor answer 200 with twelve bytes.\<close>

definition sample_next :: "gin_Context \<Rightarrow> panic + gin_Context" where
  "sample_next c = Inr (c\<lparr>Status := 200, Size := 12, HandlerName := ''main.hello''\<rparr>)"

text \<open>
  A definition of kind \<open>counter\<close> whose update function is the one of \<open>RequestTotal\<close>,
  which expects a counter vector; it is registered ahead of the example's counter.
\<close>

definition mismatched :: Metric where
  "mismatched = customMetric\<lparr>Name := ''mismatched'', ExecFn := RequestTotal_ExecFn\<rparr>"

definition two_metrics :: "mref \<Rightarrow> Metric" where
  "two_metrics r = (if r = 0 then mismatched else customMetric)"

definition mismatch_setup :: "Prometheus \<times> World" where
  "mismatch_setup = New sample_Env [WithRouter 0, WithMetrics [0, 1]] (empty_World two_metrics)"

text \<open>The same two definitions, the example's counter listed before and after the mismatched one.\<close>

definition mismatch_second_setup :: "Prometheus \<times> World" where
  "mismatch_second_setup = New sample_Env [WithRouter 0, WithMetrics [1, 0, 1]] (empty_World two_metrics)"

text \<open>The kind of a collector, as \<open>NewMetric\<close> names it, and the label names of a vector.\<close>

definition kind_of :: "CollectorObj \<Rightarrow> string" where
  "kind_of ob =
     (case ob of
        CounterVec _ _ \<Rightarrow> ''counter_vec'' | Counter _ \<Rightarrow> ''counter''
      | GaugeVec _ _ \<Rightarrow> ''gauge_vec'' | Gauge _ \<Rightarrow> ''gauge''
      | HistogramVec _ _ \<Rightarrow> ''histogram_vec'' | Histogram _ \<Rightarrow> ''histogram''
      | SummaryVec _ _ \<Rightarrow> ''summary_vec'' | Summary _ \<Rightarrow> ''summary'')"

definition label_names :: "CollectorObj \<Rightarrow> string list option" where
  "label_names ob =
     (case ob of
        CounterVec _ ls \<Rightarrow> Some ls | GaugeVec _ ls \<Rightarrow> Some ls
      | HistogramVec _ ls \<Rightarrow> Some ls | SummaryVec _ ls \<Rightarrow> Some ls
      | _ \<Rightarrow> None)"

text \<open>A tick on which the export endpoint answers with a body, and one on which the fetch fails.\<close>

definition answering :: "string \<Rightarrow> Tick" where
  "answering body = \<lparr>get_answer = (\<lambda>q. Some body), post_answer = (\<lambda>q. None)\<rparr>"

definition failing :: Tick where
  "failing = \<lparr>get_answer = (\<lambda>q. None), post_answer = (\<lambda>q. None)\<rparr>"

text \<open>An instance that pushes: a push gateway and the local URL to fetch from are configured.\<close>

definition push_setup :: "Prometheus \<times> World" where
  "push_setup =
     New sample_Env [WithPushGatewayUrl ''http://pgw:9091'', WithMetricsURL ''http://localhost:8080/metrics'']
       (empty_World (\<lambda>r. customMetric))"

text \<open>An instance with a push gateway and no local URL to fetch from.\<close>

definition push_without_fetch_url :: "Prometheus \<times> World" where
  "push_without_fetch_url = New sample_Env [WithPushGatewayUrl ''http://pgw:9091''] (empty_World (\<lambda>r. customMetric))"

text \<open>An instance that exports behind Basic-Auth, with one account.\<close>

definition auth_setup :: "Prometheus \<times> World" where
  "auth_setup =
     New sample_Env [WithExportRouter 0, WithExportAccounts (Some [(''admin'', ''secret'')]),
                     WithPushGatewayUrl ''http://pgw:9091'', WithMetricsURL ''http://localhost:8080/metrics'']
       (empty_World (\<lambda>r. customMetric))"

text \<open>
  The contract of the registry the package relies on: \<open>prometheus.Register\<close> returns an
  error for a collector whose subsystem and name are those of a collector it holds.
\<close>

definition rejects_taken_names :: "Env \<Rightarrow> bool" where
  "rejects_taken_names env = (\<forall>reg x. name_taken reg (snd x) \<longrightarrow> Register env reg (Some x) \<noteq> None)"


definition holds_name :: "(addr \<times> CollectorObj) list \<Rightarrow> string \<Rightarrow> string \<Rightarrow> bool" where
  "holds_name reg job name =
     list_ex (\<lambda>x. Subsystem (opts_of_obj (snd x)) = job \<and> opts_Name (opts_of_obj (snd x)) = name) reg"

text \<open>
  The instance of the example program, reduced to its counter: the interceptor and the
  export route on one engine, every path left at its default.
\<close>

definition default_setup :: "Prometheus \<times> World" where
  "default_setup = New sample_Env [WithRouter 0, WithExportRouter 0, WithMetrics [0]] (empty_World (\<lambda>r. customMetric))"


text \<open>
  The request counter materialised earlier under the job \<open>x\<close>, then registered beside
  its namesake by an instance with the default job.
\<close>

definition earlier_setup :: "Prometheus \<times> World" where
  "earlier_setup =
     New sample_Env [WithMetrics [0, 1]]
       (snd (Collector 0 ''x''
          (empty_World (\<lambda>r. if r = 0 then RequestTotal else RequestTotalWithMapper (\<lambda>ctx. ''/user/:name'')))))"

section \<open>Properties\<close>

subsection \<open>The request-size approximation\<close>









text \<open>
  Below \<open>-1\<close> the guard of the code and the test for a non-negative length part: a
  content length of \<open>-2\<close> would be added.
\<close>

lemma content_length_below_minus_one:
  "sint (ContentLength \<lparr>URL = Some \<lparr>Path = ''/a''\<rparr>, Method = ''GET'', Proto = ''HTTP/1.1'', Header = [],
         Host = ''h'', ContentLength = - 2\<rparr>) < 0
   \<and> computeApproximateRequestSize
        \<lparr>URL = Some \<lparr>Path = ''/a''\<rparr>, Method = ''GET'', Proto = ''HTTP/1.1'', Header = [],
         Host = ''h'', ContentLength = - 2\<rparr> = 12
   \<and> len ''/a'' + len ''GET'' + len ''HTTP/1.1'' + header_length [] + len ''h'' = 14"
  by (simp add: computeApproximateRequestSize_def len_def header_length_def)

subsection \<open>The slow-request counter\<close>

lemma obj_at_record_update [simp]: "obj_at (record_update a u h) c = obj_at h c"
proof (cases c)
  case None
  then show ?thesis by (simp add: obj_at_def)
next
  case (Some x)
  show ?thesis
  proof (cases "x = a")
    case True
    then show ?thesis using Some by (simp add: obj_at_def record_update_def)
  next
    case False
    then show ?thesis using Some by (simp add: obj_at_def record_update_def)
  qed
qed

lemma counter_value_record_Inc:
  "a < length (cells h) \<Longrightarrow> counter_value (record_update a (Inc ls) h) a = Suc (counter_value h a)"
  by (simp add: counter_value_def record_update_def)

lemma obj_at_SomeD: "obj_at h (Some a) = Some ob \<Longrightarrow> a < length (cells h) \<and> obj (cells h ! a) = ob"
  by (simp add: obj_at_def split: if_splits)

text \<open>
  Claim C6. A definition whose update function is the one \<open>SlowRequestTotal T\<close> builds,
  and whose cached collector is the counter made for it: \<open>Exec\<close> returns, and the counter
  goes up by one when the time elapsed since \<open>start\<close>, read from the clock at that
  moment, is strictly greater than \<open>T\<close>; it stays as it is otherwise, so also when the
  elapsed time equals \<open>T\<close>.
\<close>

theorem C6_slow_request_counter:
  assumes fn: "ExecFn (mets w r) = SlowRequestTotal_ExecFn T"
      and coll: "collector (mets w r) = Some a"
      and cnt: "obj_at (heap w) (Some a) = Some (Counter opts)"
  shows "fst (Exec r start ctx w) = None
       \<and> counter_value (heap (snd (Exec r start ctx w))) a =
           counter_value (heap w) a + (if T < clock (heap w) (reads (heap w)) - start then 1 else 0)"
proof -
  let ?h1 = "(heap w)\<lparr>reads := Suc (reads (heap w))\<rparr>"
  have ob: "obj_at ?h1 (Some a) = Some (Counter opts)"
    using cnt by (simp add: obj_at_def split: if_splits)
  then have a: "a < length (cells ?h1)"
    by (simp add: obj_at_def split: if_splits)
  have as: "as_Counter ?h1 (Some a) = Some a"
    using ob by (simp add: as_Counter_def)
  have cv: "counter_value ?h1 a = counter_value (heap w) a"
    by (simp add: counter_value_def)
  show ?thesis
  proof (cases "T < clock (heap w) (reads (heap w)) - start")
    case True
    then have "Exec r start ctx w =
        (None, w\<lparr>heap := record_update a (Inc []) ?h1, trace := trace w @ [ExecCalled r]\<rparr>)"
      using as by (simp add: Exec_def fn coll SlowRequestTotal_ExecFn_def time_Since_def)
    then show ?thesis
      using True a cv by (simp add: counter_value_record_Inc)
  next
    case False
    then have "Exec r start ctx w = (None, w\<lparr>heap := ?h1, trace := trace w @ [ExecCalled r]\<rparr>)"
      by (simp add: Exec_def fn coll SlowRequestTotal_ExecFn_def time_Since_def)
    then show ?thesis
      using False cv by simp
  qed
qed

text \<open>
  The guard of the interceptor. When the path of the request equals the string the
  instance is configured with, the handler returns at once: no panic, the context as
  it was, and the world as it was, so \<open>c.Next()\<close> is not called by the interceptor, the
  clock is not read and no \<open>Exec\<close> is invoked. The handlers after the interceptor are
  left to the engine.
\<close>

lemma equal_path_is_skipped:
  assumes "URL (Request c) = Some u" and "Path u = metricsPath p"
  shows "HandlerFunc p next c w = (None, c, w)"
  using assms by (simp add: HandlerFunc_def)

text \<open>The definitions unfolded to run the model on concrete inputs.\<close>

lemmas heap_defs = alloc_def obj_at_def record_update_def counter_value_def time_Now_def time_Since_def
  as_Counter_def as_CounterVec_def as_HistogramVec_def as_Summary_def

lemmas metric_defs = NewMetric_def opts_of_def Collector_def Exec_def Let_def

lemmas sample_defs = empty_World_def sample_Context_def sample_next_def sample_Env_def

text \<open>
  The definition \<open>SlowRequestTotal Second\<close> after its collector has been obtained, the
  clock reading 0: a request that started two seconds ago is counted, one that started
  exactly one second ago is not.
\<close>

theorem C6_slow_request_counter_witness:
  "counter_value (heap (snd (Exec 0 (- 2 * Second) (sample_Context ''/hello'')
       (snd (Collector 0 ''gin'' (empty_World (\<lambda>r. SlowRequestTotal Second))))))) 0 = 1
   \<and> counter_value (heap (snd (Exec 0 (- Second) (sample_Context ''/hello'')
       (snd (Collector 0 ''gin'' (empty_World (\<lambda>r. SlowRequestTotal Second))))))) 0 = 0"
proof -
  let ?w = "snd (Collector 0 ''gin'' (empty_World (\<lambda>r. SlowRequestTotal Second)))"
  let ?opts = "\<lparr>Subsystem = ''gin'', opts_Name = ''slow_request_total'', Help = ''The slow HTTP request total.''\<rparr>"
  have fn: "ExecFn (mets ?w 0) = SlowRequestTotal_ExecFn Second"
    by (simp add: metric_defs heap_defs sample_defs SlowRequestTotal_def)
  have coll: "collector (mets ?w 0) = Some 0"
    by (simp add: metric_defs heap_defs sample_defs SlowRequestTotal_def)
  have cnt: "obj_at (heap ?w) (Some 0) = Some (Counter ?opts)"
    by (simp add: metric_defs heap_defs sample_defs SlowRequestTotal_def)
  have zero: "counter_value (heap ?w) 0 = 0"
    by (simp add: metric_defs heap_defs sample_defs SlowRequestTotal_def)
  have clk: "clock (heap ?w) (reads (heap ?w)) = 0"
    by (simp add: metric_defs heap_defs sample_defs SlowRequestTotal_def)
  from C6_slow_request_counter [OF fn coll cnt, of "- 2 * Second" "sample_Context ''/hello''", unfolded zero clk]
       C6_slow_request_counter [OF fn coll cnt, of "- Second" "sample_Context ''/hello''", unfolded zero clk]
  show ?thesis
    by (simp add: Second_def)
qed

text \<open>
  An instance configured with the export path \<open>/metrics\<close>, and a request for \<open>/metrics\<close>.
\<close>

lemma equal_path_is_skipped_example:
  "HandlerFunc (WithMetricsPath ''/metrics'' (WithMetrics [0] (defaults sample_Env))) sample_next
     (sample_Context ''/metrics'') (empty_World (\<lambda>r. customMetric))
   = (None, sample_Context ''/metrics'', empty_World (\<lambda>r. customMetric))"
  by (rule equal_path_is_skipped [of _ "\<lparr>Path = ''/metrics''\<rparr>"])
     (simp_all add: sample_Context_def WithMetricsPath_def)

text \<open>
  The comparison is between strings. The default export path is \<open>metrics\<close>, without a
  leading slash: under the defaults a request whose URL path is \<open>/metrics\<close> is
  instrumented like any other.
\<close>

lemma default_path_is_not_a_request_path:
  "exec_calls (trace (snd (snd (HandlerFunc (WithMetrics [0] (defaults sample_Env)) sample_next
     (sample_Context ''/metrics'') (snd (Collector 0 ''gin'' (empty_World (\<lambda>r. customMetric)))))))) = [0]"
  by (simp add: HandlerFunc_def WithMetrics_def defaults_def DefaultMetricsPath_def
      metric_defs heap_defs sample_defs customMetric_def customMetric_ExecFn_def exec_calls_def)

subsection \<open>Dispatch to the registered metrics\<close>

lemma Exec_trace: "trace (snd (Exec r start c w)) = trace w @ [ExecCalled r]"
  by (simp add: Exec_def Let_def split: prod.splits)

lemma exec_calls_append [simp]: "exec_calls (xs @ ys) = exec_calls xs @ exec_calls ys"
  by (simp add: exec_calls_def)

lemma exec_calls_simps [simp]:
  "exec_calls [] = []"
  "exec_calls (ExecCalled r # tr) = r # exec_calls tr"
  "exec_calls (NextCalled # tr) = exec_calls tr"
  "exec_calls (RegisterCalled a # tr) = exec_calls tr"
  "exec_calls (LoggerError tag err # tr) = exec_calls tr"
  "exec_calls (RouterUse n # tr) = exec_calls tr"
  "exec_calls (RouterGET n path b # tr) = exec_calls tr"
  "exec_calls (ClientDo q # tr) = exec_calls tr"
  "exec_calls (PushStarted d # tr) = exec_calls tr"
  by (simp_all add: exec_calls_def)

lemma range_metrics_append:
  "range_metrics (xs @ ys) start c w =
     (case range_metrics xs start c w of
        (Some e, w') \<Rightarrow> (Some e, w')
      | (None, w') \<Rightarrow> range_metrics ys start c w')"
  by (induction xs arbitrary: w) (auto split: prod.splits option.splits)

lemma range_metrics_all_called:
  "range_metrics ms start c w = (None, w') \<Longrightarrow> exec_calls (trace w') = exec_calls (trace w) @ ms"
proof (induction ms arbitrary: w)
  case Nil
  then show ?case by simp
next
  case (Cons r rs)
  obtain res w1 where ex: "Exec r start c w = (res, w1)"
    by (cases "Exec r start c w")
  with Cons.prems have res: "res = None" and rest: "range_metrics rs start c w1 = (None, w')"
    by (auto split: option.splits)
  from ex have "trace w1 = trace w @ [ExecCalled r]"
    using Exec_trace [of r start c w] by simp
  with Cons.IH [OF rest] show ?case by simp
qed

lemma range_metrics_panic_at:
  assumes k: "k < length ms"
      and before: "range_metrics (take k ms) start c w = (None, wk)"
      and fails: "fst (Exec (ms ! k) start c wk) = Some e"
  shows "range_metrics ms start c w = (Some e, snd (Exec (ms ! k) start c wk))"
proof -
  have split: "ms = take k ms @ (ms ! k) # drop (Suc k) ms"
    using k by (simp add: id_take_nth_drop)
  have "range_metrics ms start c w = range_metrics (take k ms @ (ms ! k) # drop (Suc k) ms) start c w"
    using split by simp
  also have "\<dots> = range_metrics ((ms ! k) # drop (Suc k) ms) start c wk"
    by (simp add: range_metrics_append before)
  also have "\<dots> = (Some e, snd (Exec (ms ! k) start c wk))"
    using fails by (cases "Exec (ms ! k) start c wk") simp
  finally show ?thesis .
qed

text \<open>
  Claim C1, as the code has it. No panic is recovered in the package. When the
  metrics before position \<open>k\<close> have run and returned, and the update function of the
  metric at \<open>k\<close> panics (a failed type assertion on the cached collector is such a
  panic), the panic leaves the loop and the handler: the handler ends with that panic,
  the world is the one the failing \<open>Exec\<close> left (the updates of the earlier metrics
  stay), and the \<open>Exec\<close> calls made are those of the metrics up to \<open>k\<close>; the metrics
  after \<open>k\<close> are not run.
\<close>

theorem C1_exec_panic_leaves_dispatch:
  assumes url: "URL (Request c) = Some u"
      and path: "Path u \<noteq> metricsPath p"
      and nxt: "next c = Inr c'"
      and k: "k < length (metrics p)"
      and before: "range_metrics (take k (metrics p)) (fst (time_Now (heap w))) c'
                     (w\<lparr>heap := snd (time_Now (heap w)), trace := trace w @ [NextCalled]\<rparr>) = (None, wk)"
      and fails: "fst (Exec (metrics p ! k) (fst (time_Now (heap w))) c' wk) = Some e"
  shows "HandlerFunc p next c w = (Some e, c', snd (Exec (metrics p ! k) (fst (time_Now (heap w))) c' wk))
       \<and> exec_calls (trace (snd (snd (HandlerFunc p next c w)))) = exec_calls (trace w) @ take (Suc k) (metrics p)"
proof -
  let ?start = "fst (time_Now (heap w))"
  let ?w1 = "w\<lparr>heap := snd (time_Now (heap w)), trace := trace w @ [NextCalled]\<rparr>"
  have loop: "range_metrics (metrics p) ?start c' ?w1 = (Some e, snd (Exec (metrics p ! k) ?start c' wk))"
    by (rule range_metrics_panic_at [OF k before fails])
  have h: "HandlerFunc p next c w = (Some e, c', snd (Exec (metrics p ! k) ?start c' wk))"
    using url path nxt loop by (simp add: HandlerFunc_def Let_def case_prod_beta)
  have "exec_calls (trace wk) = exec_calls (trace ?w1) @ take k (metrics p)"
    by (rule range_metrics_all_called [OF before])
  then have "exec_calls (trace (snd (Exec (metrics p ! k) ?start c' wk))) =
             exec_calls (trace w) @ take k (metrics p) @ [metrics p ! k]"
    by (simp add: Exec_trace)
  then have "exec_calls (trace (snd (Exec (metrics p ! k) ?start c' wk))) =
             exec_calls (trace w) @ take (Suc k) (metrics p)"
    using k by (simp add: take_Suc_conv_app_nth)
  with h show ?thesis by simp
qed

text \<open>
  When no update function panics, every registered metric is run, in registration order.
\<close>

lemma all_metrics_run_without_panic:
  assumes url: "URL (Request c) = Some u"
      and path: "Path u \<noteq> metricsPath p"
      and nxt: "next c = Inr c'"
      and ok: "fst (HandlerFunc p next c w) = None"
  shows "exec_calls (trace (snd (snd (HandlerFunc p next c w)))) = exec_calls (trace w) @ metrics p"
proof -
  let ?start = "fst (time_Now (heap w))"
  let ?w1 = "w\<lparr>heap := snd (time_Now (heap w)), trace := trace w @ [NextCalled]\<rparr>"
  obtain res w2 where loop: "range_metrics (metrics p) ?start c' ?w1 = (res, w2)"
    by (cases "range_metrics (metrics p) ?start c' ?w1")
  then have h: "HandlerFunc p next c w = (res, c', w2)"
    using url path nxt by (simp add: HandlerFunc_def Let_def case_prod_beta)
  with ok have "res = None" by simp
  with loop have "exec_calls (trace w2) = exec_calls (trace ?w1) @ metrics p"
    using range_metrics_all_called by blast
  with h show ?thesis by simp
qed

lemmas new_defs = New_def apply_opts_def defaults_def registerMetrics_def register_one_def register_arg_def
  first_account_auth_def startPush_def WithRouter_def WithExportRouter_def WithMetricsPath_def
  WithMetrics_def WithPushGatewayUrl_def WithExportAccounts_def WithPushInterval_def
  WithPushPushGatewayURL_def WithJobName_def WithLoggerTag_def WithInstanceName_def WithMetricsURL_def
  DefaultPushInterval_def DefaultJobName_def DefaultMetricsPath_def

lemmas example_defs = customMetric_def customMetric_ExecFn_def mismatched_def two_metrics_def
  RequestTotal_ExecFn_def name_taken_def same_name_def opts_of_obj_def


lemma mismatch_setup_metrics: "metrics (fst mismatch_setup) = [0, 1]"
  by (simp add: mismatch_setup_def new_defs case_prod_beta Let_def)

lemma mismatch_setup_path: "metricsPath (fst mismatch_setup) = ''metrics''"
  by (simp add: mismatch_setup_def new_defs case_prod_beta Let_def)

lemma mismatch_setup_world:
  "snd mismatch_setup =
     \<lparr>mets = two_metrics
        (0 := mismatched\<lparr>collector := Some 0, once := True\<rparr>,
         1 := customMetric\<lparr>collector := Some 1, once := True\<rparr>),
      heap = \<lparr>cells = [\<lparr>obj = Counter \<lparr>Subsystem = ''gin'', opts_Name = ''mismatched'', Help = ''Counter test metric''\<rparr>, updates = []\<rparr>,
                       \<lparr>obj = Counter \<lparr>Subsystem = ''gin'', opts_Name = ''test_metric'', Help = ''Counter test metric''\<rparr>, updates = []\<rparr>],
              clock = (\<lambda>n. 1000000 * int n), reads = 0\<rparr>,
      registry = [(0, Counter \<lparr>Subsystem = ''gin'', opts_Name = ''mismatched'', Help = ''Counter test metric''\<rparr>),
                  (1, Counter \<lparr>Subsystem = ''gin'', opts_Name = ''test_metric'', Help = ''Counter test metric''\<rparr>)],
      trace = [RouterUse 0, RegisterCalled (Some 0), RegisterCalled (Some 1)]\<rparr>"
  by (simp add: mismatch_setup_def new_defs metric_defs heap_defs sample_defs example_defs)

text \<open>
  The claim as the specification words it, refuted. Two definitions are registered: a
  counter whose update function asserts a counter vector, then the example's counter.
  On a request for \<open>/hello\<close> the handler ends with the panic of the failed assertion;
  \<open>Exec\<close> was called on the first metric only, and the example's counter is still 0.
\<close>

theorem C1_mismatch_aborts_dispatch:
  "fst (HandlerFunc (fst mismatch_setup) sample_next (sample_Context ''/hello'') (snd mismatch_setup))
     = Some InterfaceConversion
   \<and> exec_calls (trace (snd (snd (HandlerFunc (fst mismatch_setup) sample_next (sample_Context ''/hello'')
        (snd mismatch_setup))))) = [0]
   \<and> counter_value (heap (snd (snd (HandlerFunc (fst mismatch_setup) sample_next (sample_Context ''/hello'')
        (snd mismatch_setup))))) 1 = 0"
  by (simp add: HandlerFunc_def mismatch_setup_metrics mismatch_setup_path mismatch_setup_world
      metric_defs heap_defs sample_defs example_defs)

lemma mismatch_second_setup_metrics: "metrics (fst mismatch_second_setup) = [1, 0, 1]"
  by (simp add: mismatch_second_setup_def new_defs case_prod_beta Let_def)

lemma mismatch_second_setup_path: "metricsPath (fst mismatch_second_setup) = ''metrics''"
  by (simp add: mismatch_second_setup_def new_defs case_prod_beta Let_def)

lemma mismatch_second_setup_world:
  "snd mismatch_second_setup =
     \<lparr>mets = two_metrics
        (1 := customMetric\<lparr>collector := Some 0, once := True\<rparr>,
         0 := mismatched\<lparr>collector := Some 1, once := True\<rparr>),
      heap = \<lparr>cells = [\<lparr>obj = Counter \<lparr>Subsystem = ''gin'', opts_Name = ''test_metric'', Help = ''Counter test metric''\<rparr>, updates = []\<rparr>,
                       \<lparr>obj = Counter \<lparr>Subsystem = ''gin'', opts_Name = ''mismatched'', Help = ''Counter test metric''\<rparr>, updates = []\<rparr>],
              clock = (\<lambda>n. 1000000 * int n), reads = 0\<rparr>,
      registry = [(0, Counter \<lparr>Subsystem = ''gin'', opts_Name = ''test_metric'', Help = ''Counter test metric''\<rparr>),
                  (1, Counter \<lparr>Subsystem = ''gin'', opts_Name = ''mismatched'', Help = ''Counter test metric''\<rparr>)],
      trace = [RouterUse 0, RegisterCalled (Some 0), RegisterCalled (Some 1), RegisterCalled (Some 0),
               LoggerError ''gin-metrics'' ''duplicate metrics collector registration attempted'']\<rparr>"
  by (simp add: mismatch_second_setup_def new_defs metric_defs heap_defs sample_defs example_defs)

text \<open>
  With the example's counter listed first and last: it runs once, the mismatched
  definition panics at position 1, and the last entry is not run.
\<close>

theorem C1_exec_panic_leaves_dispatch_witness:
  "fst (HandlerFunc (fst mismatch_second_setup) sample_next (sample_Context ''/hello'') (snd mismatch_second_setup))
     = Some InterfaceConversion
   \<and> exec_calls (trace (snd (snd (HandlerFunc (fst mismatch_second_setup) sample_next (sample_Context ''/hello'')
        (snd mismatch_second_setup))))) = [1, 0]"
proof -
  let ?p = "fst mismatch_second_setup" and ?w = "snd mismatch_second_setup"
  let ?c = "sample_Context ''/hello''"
  let ?c' = "?c\<lparr>Status := 200, Size := 12, HandlerName := ''main.hello''\<rparr>"
  let ?w1 = "?w\<lparr>heap := snd (time_Now (heap ?w)), trace := trace ?w @ [NextCalled]\<rparr>"
  let ?wk = "snd (Exec 1 (fst (time_Now (heap ?w))) ?c' ?w1)"
  have url: "URL (Request ?c) = Some \<lparr>Path = ''/hello''\<rparr>"
    by (simp add: sample_Context_def)
  have path: "Path \<lparr>Path = ''/hello''\<rparr> \<noteq> metricsPath ?p"
    by (simp add: mismatch_second_setup_path)
  have nxt: "sample_next ?c = Inr ?c'"
    by (simp add: sample_next_def)
  have k: "(1::nat) < length (metrics ?p)"
    by (simp add: mismatch_second_setup_metrics)
  have before: "range_metrics (take 1 (metrics ?p)) (fst (time_Now (heap ?w))) ?c' ?w1 = (None, ?wk)"
    by (simp add: mismatch_second_setup_metrics mismatch_second_setup_world
        metric_defs heap_defs sample_defs example_defs)
  have fails: "fst (Exec (metrics ?p ! 1) (fst (time_Now (heap ?w))) ?c' ?wk) = Some InterfaceConversion"
    by (simp add: mismatch_second_setup_metrics mismatch_second_setup_world
        metric_defs heap_defs sample_defs example_defs)
  note main = C1_exec_panic_leaves_dispatch [where ?next = sample_next, OF url path nxt k before fails]
  have res: "fst (HandlerFunc ?p sample_next ?c ?w) = Some InterfaceConversion"
    by (simp only: main [THEN conjunct1] fst_conv)
  have "exec_calls (trace ?w) @ take (Suc 1) (metrics ?p) = [1, 0]"
    by (simp add: mismatch_second_setup_metrics mismatch_second_setup_world)
  with main [THEN conjunct2]
  have "exec_calls (trace (snd (snd (HandlerFunc ?p sample_next ?c ?w)))) = [1, 0]"
    by (simp only:)
  with res show ?thesis
    by (simp only: simp_thms)
qed

subsection \<open>Obtaining the collector of a definition\<close>

lemma NewMetric_unrecognized: "\<not> recognized (Type m) \<Longrightarrow> NewMetric m job h = (None, h)"
  by (simp add: NewMetric_def recognized_def)

lemma NewMetric_vector:
  assumes "vector_kind (Type m)"
  shows "\<exists>ob. NewMetric m job h = alloc ob h \<and> kind_of ob = Type m \<and> label_names ob = Some (Args m)
              \<and> opts_of_obj ob = opts_of m job"
  using assms by (auto simp: NewMetric_def vector_kind_def kind_of_def label_names_def opts_of_obj_def)

lemma obj_at_alloc: "obj_at (snd (alloc ob h)) (fst (alloc ob h)) = Some ob"
  by (simp add: alloc_def obj_at_def)

text \<open>
  Claim C3, as the code has it. \<open>Collector\<close> has no error to return and \<open>NewMetric\<close>
  checks neither the kind nor the label names. On a definition not yet materialised:
  for a kind that is not one of the eight, \<open>Collector\<close> returns nil, caches nil and
  marks the once as done, and nothing else of the world changes (nothing is logged);
  for a vector kind declared with no label names it returns a newly allocated
  collector of that kind, built with the empty list of label names, and logs nothing.
\<close>

theorem C3_no_configuration_error:
  assumes fresh: "\<not> once (mets w r)"
  shows "(\<not> recognized (Type (mets w r)) \<longrightarrow>
            Collector r job w = (None, w\<lparr>mets := (mets w)(r := (mets w r)\<lparr>collector := None, once := True\<rparr>)\<rparr>))
       \<and> (vector_kind (Type (mets w r)) \<and> Args (mets w r) = [] \<longrightarrow>
            (\<exists>ob. fst (Collector r job w) = Some (length (cells (heap w)))
                 \<and> obj_at (heap (snd (Collector r job w))) (fst (Collector r job w)) = Some ob
                 \<and> kind_of ob = Type (mets w r) \<and> label_names ob = Some [])
            \<and> trace (snd (Collector r job w)) = trace w)"
proof (intro conjI impI)
  assume "\<not> recognized (Type (mets w r))"
  then show "Collector r job w = (None, w\<lparr>mets := (mets w)(r := (mets w r)\<lparr>collector := None, once := True\<rparr>)\<rparr>)"
    using fresh by (simp add: Collector_def NewMetric_unrecognized)
next
  assume v: "vector_kind (Type (mets w r)) \<and> Args (mets w r) = []"
  then obtain ob where ob: "NewMetric (mets w r) job (heap w) = alloc ob (heap w)"
      "kind_of ob = Type (mets w r)" "label_names ob = Some (Args (mets w r))"
    using NewMetric_vector [of "mets w r" job "heap w"] by blast
  have c: "Collector r job w =
      (fst (alloc ob (heap w)), w\<lparr>mets := (mets w)(r := (mets w r)\<lparr>collector := fst (alloc ob (heap w)), once := True\<rparr>),
                                    heap := snd (alloc ob (heap w))\<rparr>)"
    using fresh ob(1) by (simp add: Collector_def case_prod_beta)
  have "fst (Collector r job w) = Some (length (cells (heap w)))"
    by (simp add: c alloc_def)
  moreover have "obj_at (heap (snd (Collector r job w))) (fst (Collector r job w)) = Some ob"
    by (simp add: c obj_at_alloc)
  ultimately show "\<exists>ob. fst (Collector r job w) = Some (length (cells (heap w)))
                 \<and> obj_at (heap (snd (Collector r job w))) (fst (Collector r job w)) = Some ob
                 \<and> kind_of ob = Type (mets w r) \<and> label_names ob = Some []"
    using ob(2,3) v by auto
next
  assume "vector_kind (Type (mets w r)) \<and> Args (mets w r) = []"
  show "trace (snd (Collector r job w)) = trace w"
    by (simp add: Collector_def case_prod_beta Let_def)
qed

text \<open>
  A definition of kind \<open>timer\<close>, and \<open>RequestTotal\<close> with its label names removed.
\<close>

theorem C3_no_configuration_error_witness:
  "Collector 0 ''gin'' (empty_World (\<lambda>r. customMetric\<lparr>Type := ''timer''\<rparr>))
     = (None, empty_World (\<lambda>r. if r = 0 then customMetric\<lparr>Type := ''timer'', once := True\<rparr>
                                else customMetric\<lparr>Type := ''timer''\<rparr>))
   \<and> fst (Collector 0 ''gin'' (empty_World (\<lambda>r. RequestTotal\<lparr>Args := []\<rparr>))) = Some 0"
proof -
  let ?w = "empty_World (\<lambda>r. customMetric\<lparr>Type := ''timer''\<rparr>)"
  let ?v = "empty_World (\<lambda>r. RequestTotal\<lparr>Args := []\<rparr>)"
  have f1: "\<not> once (mets ?w 0)" and u: "\<not> recognized (Type (mets ?w 0))"
    by (simp_all add: empty_World_def customMetric_def recognized_def)
  have f2: "\<not> once (mets ?v 0)" and v: "vector_kind (Type (mets ?v 0)) \<and> Args (mets ?v 0) = []"
    by (simp_all add: empty_World_def RequestTotal_def vector_kind_def)
  from C3_no_configuration_error [OF f1, of "''gin''"] u
  have "Collector 0 ''gin'' ?w = (None, ?w\<lparr>mets := (mets ?w)(0 := (mets ?w 0)\<lparr>collector := None, once := True\<rparr>)\<rparr>)"
    by blast
  moreover have "?w\<lparr>mets := (mets ?w)(0 := (mets ?w 0)\<lparr>collector := None, once := True\<rparr>)\<rparr>
      = empty_World (\<lambda>r. if r = 0 then customMetric\<lparr>Type := ''timer'', once := True\<rparr>
                                else customMetric\<lparr>Type := ''timer''\<rparr>)"
    by (simp add: empty_World_def customMetric_def fun_eq_iff)
  moreover from C3_no_configuration_error [OF f2, of "''gin''"] v
  have "fst (Collector 0 ''gin'' ?v) = Some 0"
    by (auto simp: empty_World_def)
  ultimately show ?thesis by simp
qed

text \<open>
  The claim as the specification words it, refuted: for the kind \<open>timer\<close> the call
  returns nil and leaves the trace empty; for the counter vector without label names
  it returns the collector at address 0, a counter vector with no label names, and
  constructing an instance with it logs nothing.
\<close>

theorem C3_unknown_kind_yields_nil:
  "fst (Collector 0 ''gin'' (empty_World (\<lambda>r. customMetric\<lparr>Type := ''timer''\<rparr>))) = None
   \<and> trace (snd (Collector 0 ''gin'' (empty_World (\<lambda>r. customMetric\<lparr>Type := ''timer''\<rparr>)))) = []
   \<and> fst (Collector 0 ''gin'' (empty_World (\<lambda>r. RequestTotal\<lparr>Args := []\<rparr>))) = Some 0
   \<and> map obj (cells (heap (snd (Collector 0 ''gin'' (empty_World (\<lambda>r. RequestTotal\<lparr>Args := []\<rparr>))))))
       = [CounterVec \<lparr>Subsystem = ''gin'', opts_Name = ''requests_total'',
                      Help = ''How many HTTP requests processed, partitioned by status code and HTTP method.''\<rparr> []]
   \<and> logged (trace (snd (New sample_Env [WithMetrics [0]] (empty_World (\<lambda>r. RequestTotal\<lparr>Args := []\<rparr>))))) = []"
  by (simp add: metric_defs heap_defs sample_defs new_defs example_defs customMetric_def RequestTotal_def logged_def)

subsection \<open>The push forwarder\<close>

lemma posts_append [simp]: "posts (xs @ ys) = posts xs @ posts ys"
  by (simp add: posts_def)

lemma fetchMetrics_posts: "posts (snd (fetchMetrics env tk p tr)) = posts tr"
proof -
  have get: "\<And>q. http_NewRequest env ''GET'' (MetricsURL p) [] = Some q \<Longrightarrow> req_method q = ''GET''"
    by (auto simp: http_NewRequest_def split: if_splits)
  show ?thesis
  proof (cases "http_NewRequest env ''GET'' (MetricsURL p) []")
    case None
    then show ?thesis
      by (simp add: fetchMetrics_def Let_def posts_def is_POST_def split: option.splits)
  next
    case (Some q)
    with get have "req_method q = ''GET''" by simp
    with Some show ?thesis
      by (simp add: fetchMetrics_def Let_def posts_def is_POST_def split: option.splits)
  qed
qed

lemma range_ticker_no_posts:
  "MetricsURL p = [] \<Longrightarrow> posts (snd (range_ticker env p tks tr)) = posts tr"
proof (induction tks arbitrary: tr)
  case Nil
  then show ?case by simp
next
  case (Cons tk tks)
  obtain res tr1 where f: "fetchMetrics env tk p tr = (res, tr1)"
    by (cases "fetchMetrics env tk p tr")
  then have p1: "posts tr1 = posts tr"
    using fetchMetrics_posts [of env tk p tr] by simp
  show ?case
  proof (cases res)
    case (Inl e)
    with f p1 show ?thesis by simp
  next
    case (Inr body)
    have "sendToPushGateway env tk p body tr1 = tr1"
      using Cons.prems by (simp add: sendToPushGateway_def)
    with f Inr p1 Cons.IH [OF Cons.prems, of tr1] show ?thesis by simp
  qed
qed

text \<open>
  Claim C9. With an empty local metrics-fetch URL, \<open>sendToPushGateway\<close> returns
  without doing anything, whatever body it is given; and however many ticks the push
  loop goes through and whatever the network answers, no POST is ever handed to an
  HTTP client.
\<close>

theorem C9_no_push_without_fetch_url:
  assumes "MetricsURL p = []"
  shows "sendToPushGateway env tk p body tr = tr
       \<and> posts (snd (range_ticker env p tks tr)) = posts tr"
  using assms by (simp add: sendToPushGateway_def range_ticker_no_posts)

lemmas push_defs = range_ticker.simps fetchMetrics_def sendToPushGateway_def http_NewRequest_def
  GetPushGatewayURL_def answering_def failing_def posts_def is_POST_def

lemma push_without_fetch_url_fields:
  "MetricsURL (fst push_without_fetch_url) = []"
  "PushGatewayURL (fst push_without_fetch_url) = ''http://pgw:9091''"
  "trace (snd push_without_fetch_url) = [PushStarted (5 * Second)]"
  by (simp_all add: push_without_fetch_url_def new_defs sample_defs case_prod_beta Let_def)

text \<open>
  An instance with a push gateway URL and no fetch URL: the push loop is started, and
  two ticks on which the fetch is answered forward nothing.
\<close>

theorem C9_no_push_without_fetch_url_witness:
  "trace (snd push_without_fetch_url) = [PushStarted (5 * Second)]
   \<and> sendToPushGateway sample_Env (answering ''up 1'') (fst push_without_fetch_url) ''up 1'' [] = []
   \<and> posts (snd (range_ticker sample_Env (fst push_without_fetch_url) [answering ''up 1'', answering ''up 2''] [])) = []"
  using C9_no_push_without_fetch_url [OF push_without_fetch_url_fields(1), of sample_Env "answering ''up 1''" "''up 1''" "[]"
          "[answering ''up 1'', answering ''up 2'']"]
  by (simp add: push_without_fetch_url_fields posts_def)

lemma push_setup_fields:
  "fst push_setup = (defaults sample_Env)\<lparr>PushGatewayURL := ''http://pgw:9091'', MetricsURL := ''http://localhost:8080/metrics''\<rparr>"
  by (simp add: push_setup_def new_defs sample_defs case_prod_beta Let_def)

text \<open>
  The fetch of a tick fails: \<open>http.DefaultClient.Do\<close> returns a nil response. The
  deferred \<open>resp.Body.Close()\<close> dereferences it, and the loop ends with that panic
  whatever ticks would follow.
\<close>

lemma failed_fetch_panics:
  assumes "get_answer tk (http_NewRequest env ''GET'' (MetricsURL p) []) = None"
      and "metricsBasicAuth p = []"
  shows "range_ticker env p (tk # tks) tr =
           (Some NilPointerDereference, tr @ [ClientDo (http_NewRequest env ''GET'' (MetricsURL p) [])])"
  using assms by (simp add: fetchMetrics_def Let_def)

text \<open>
  Claim C4, on the code. With a push gateway and a fetch URL configured: when the
  fetch of the first tick fails, only the GET was attempted, the loop ends with a nil
  dereference and the second tick is never served. When the fetch returns an empty
  body, the empty body is posted, and the loop goes on to the next tick.
\<close>

theorem C4_failed_fetch_ends_push_loop:
  "range_ticker sample_Env (fst push_setup) [failing, answering ''up 1''] [] =
     (Some NilPointerDereference,
      [ClientDo (Some \<lparr>req_method = ''GET'', req_url = ''http://localhost:8080/metrics'', req_header = [], req_body = []\<rparr>)])
   \<and> range_ticker sample_Env (fst push_setup) [answering [], answering ''up 1''] [] =
     (None,
      [ClientDo (Some \<lparr>req_method = ''GET'', req_url = ''http://localhost:8080/metrics'', req_header = [], req_body = []\<rparr>),
       ClientDo (Some \<lparr>req_method = ''POST'', req_url = ''http://pgw:9091/metrics/job/gin/instance/host-1'', req_header = [], req_body = []\<rparr>),
       ClientDo (Some \<lparr>req_method = ''GET'', req_url = ''http://localhost:8080/metrics'', req_header = [], req_body = []\<rparr>),
       ClientDo (Some \<lparr>req_method = ''POST'', req_url = ''http://pgw:9091/metrics/job/gin/instance/host-1'', req_header = [], req_body = ''up 1''\<rparr>)])"
  by (simp add: push_setup_fields push_defs sample_defs defaults_def DefaultJobName_def)

lemma New_fst:
  "fst (New env opts w) =
     (let p = apply_opts opts (defaults env)
      in case exportRouter p of
           None \<Rightarrow> p
         | Some e \<Rightarrow> if accounts p \<noteq> None then first_account_auth env p else p)"
  by (simp add: New_def Let_def case_prod_beta split: option.splits)

lemma b64_groups_nonempty: "bs \<noteq> [] \<Longrightarrow> b64_groups bs \<noteq> []"
  by (induction bs rule: b64_groups.induct) simp_all

lemma StdEncoding_nonempty: "s \<noteq> [] \<Longrightarrow> StdEncoding s \<noteq> []"
  by (simp add: StdEncoding_def b64_groups_nonempty)

text \<open>
  Claim C10. An instance constructed with an export router and with accounts, the
  first of which in the order of the loop is \<open>(username, password)\<close>: the credential
  kept is the encoding of \<open>username:password\<close>, the request of every local fetch
  carries exactly that string as its \<open>Authorization\<close> header, and that string is
  not the encoding behind a \<open>Basic\<close> scheme prefix. (The encoding must be
  non-empty for the header to be set at all, as the standard encoding of a non-empty
  string is, and \<open>http.NewRequest\<close> must accept the fetch URL.)
\<close>

theorem C10_fetch_sends_bare_base64:
  assumes er: "exportRouter (apply_opts opts (defaults env)) = Some e"
      and acc: "accounts (apply_opts opts (defaults env)) = Some ((username, password) # rest)"
      and nonempty: "EncodeToString env (username @ '':'' @ password) \<noteq> []"
      and ok: "NewRequest_ok env ''GET'' (MetricsURL (apply_opts opts (defaults env)))"
  shows "metricsBasicAuth (fst (New env opts w)) = EncodeToString env (username @ '':'' @ password)
       \<and> snd (fetchMetrics env tk (fst (New env opts w)) tr) =
           tr @ [ClientDo (Some \<lparr>req_method = ''GET'', req_url = MetricsURL (fst (New env opts w)),
                                   req_header = [(''Authorization'', EncodeToString env (username @ '':'' @ password))],
                                   req_body = []\<rparr>)]
       \<and> EncodeToString env (username @ '':'' @ password) \<noteq> ''Basic '' @ EncodeToString env (username @ '':'' @ password)"
proof -
  let ?p0 = "apply_opts opts (defaults env)"
  let ?enc = "EncodeToString env (username @ '':'' @ password)"
  have p: "fst (New env opts w) = ?p0\<lparr>metricsBasicAuth := ?enc\<rparr>"
    using er acc by (simp add: New_fst first_account_auth_def)
  have auth: "metricsBasicAuth (fst (New env opts w)) = ?enc"
    by (simp add: p)
  have url: "MetricsURL (fst (New env opts w)) = MetricsURL ?p0"
    by (simp add: p)
  have req: "http_NewRequest env ''GET'' (MetricsURL (fst (New env opts w))) [] =
               Some \<lparr>req_method = ''GET'', req_url = MetricsURL (fst (New env opts w)), req_header = [], req_body = []\<rparr>"
    using ok by (simp add: http_NewRequest_def url)
  have fetch: "snd (fetchMetrics env tk (fst (New env opts w)) tr) =
           tr @ [ClientDo (Some \<lparr>req_method = ''GET'', req_url = MetricsURL (fst (New env opts w)),
                                   req_header = [(''Authorization'', ?enc)], req_body = []\<rparr>)]"
    using nonempty by (simp add: fetchMetrics_def req auth Let_def split: option.splits)
  have "length ?enc \<noteq> length (''Basic '' @ ?enc)"
    by simp
  then have "?enc \<noteq> ''Basic '' @ ?enc"
    by metis
  with auth fetch show ?thesis by simp
qed

text \<open>
  The account \<open>admin\<close> with password \<open>secret\<close>, under the standard encoding.
\<close>

theorem C10_fetch_sends_bare_base64_witness:
  "metricsBasicAuth (fst auth_setup) = ''YWRtaW46c2VjcmV0''
   \<and> snd (fetchMetrics sample_Env (answering ''up 1'') (fst auth_setup) []) =
        [ClientDo (Some \<lparr>req_method = ''GET'', req_url = ''http://localhost:8080/metrics'',
                           req_header = [(''Authorization'', ''YWRtaW46c2VjcmV0'')], req_body = []\<rparr>)]"
proof -
  let ?opts = "[WithExportRouter 0, WithExportAccounts (Some [(''admin'', ''secret'')]),
                WithPushGatewayUrl ''http://pgw:9091'', WithMetricsURL ''http://localhost:8080/metrics'']"
  have er: "exportRouter (apply_opts ?opts (defaults sample_Env)) = Some 0"
    by (simp add: new_defs)
  have acc: "accounts (apply_opts ?opts (defaults sample_Env)) = Some ((''admin'', ''secret'') # [])"
    by (simp add: new_defs)
  have enc: "EncodeToString sample_Env (''admin'' @ '':'' @ ''secret'') = ''YWRtaW46c2VjcmV0''"
    by (simp add: sample_Env_def StdEncoding_def b64_digit_def b64_alphabet_def)
  have nonempty: "EncodeToString sample_Env (''admin'' @ '':'' @ ''secret'') \<noteq> []"
    by (simp only: enc) simp
  have ok: "NewRequest_ok sample_Env ''GET'' (MetricsURL (apply_opts ?opts (defaults sample_Env)))"
    by (simp add: sample_Env_def)
  have url: "MetricsURL (fst auth_setup) = ''http://localhost:8080/metrics''"
    by (simp add: auth_setup_def new_defs Let_def)
  note main = C10_fetch_sends_bare_base64 [OF er acc nonempty ok,
      of "empty_World (\<lambda>r. customMetric)" "answering ''up 1''" "[]", folded auth_setup_def, unfolded enc url]
  then show ?thesis by simp
qed

subsection \<open>Registration of two definitions with one name\<close>

lemma name_taken_holds_name:
  "name_taken reg ob = holds_name reg (Subsystem (opts_of_obj ob)) (opts_Name (opts_of_obj ob))"
  by (simp add: name_taken_def holds_name_def same_name_def)

lemma holds_name_append: "holds_name reg job name \<Longrightarrow> holds_name (reg @ xs) job name"
  by (auto simp: holds_name_def list_ex_iff)

lemma logged_append [simp]: "logged (xs @ ys) = logged xs @ logged ys"
  by (simp add: logged_def)

lemma logged_simps [simp]:
  "logged [] = []"
  "logged (LoggerError tag err # tr) = (tag, err) # logged tr"
  "logged (RegisterCalled c # tr) = logged tr"
  by (simp_all add: logged_def)

lemma NewMetric_recognized:
  assumes "recognized (Type m)"
  shows "\<exists>ob. NewMetric m job h = alloc ob h \<and> opts_of_obj ob = opts_of m job \<and> kind_of ob = Type m"
  using assms by (auto simp: NewMetric_def recognized_def kind_of_def opts_of_obj_def)

text \<open>What \<open>Collector\<close> does to a definition not yet materialised, of a recognized kind.\<close>

lemma Collector_fresh:
  assumes "\<not> once (mets w r)" and "recognized (Type (mets w r))"
  shows "\<exists>ob. opts_of_obj ob = opts_of (mets w r) job
            \<and> Collector r job w =
                (Some (length (cells (heap w))),
                 w\<lparr>mets := (mets w)(r := (mets w r)\<lparr>collector := Some (length (cells (heap w))), once := True\<rparr>),
                    heap := (heap w)\<lparr>cells := cells (heap w) @ [\<lparr>obj = ob, updates = []\<rparr>]\<rparr>\<rparr>)"
proof -
  from NewMetric_recognized [OF assms(2), of job "heap w"]
  obtain ob where ob: "NewMetric (mets w r) job (heap w) = alloc ob (heap w)"
      "opts_of_obj ob = opts_of (mets w r) job"
    by blast
  have "Collector r job w =
                (Some (length (cells (heap w))),
                 w\<lparr>mets := (mets w)(r := (mets w r)\<lparr>collector := Some (length (cells (heap w))), once := True\<rparr>),
                    heap := (heap w)\<lparr>cells := cells (heap w) @ [\<lparr>obj = ob, updates = []\<rparr>]\<rparr>\<rparr>)"
    using assms(1) ob(1) by (simp add: Collector_def alloc_def)
  with ob(2) show ?thesis by blast
qed

lemma Collector_done: "once (mets w r) \<Longrightarrow> Collector r job w = (collector (mets w r), w)"
  by (simp add: Collector_def)

lemma Collector_frame:
  "registry (snd (Collector r job w)) = registry w"
  "trace (snd (Collector r job w)) = trace w"
  "r' \<noteq> r \<Longrightarrow> mets (snd (Collector r job w)) r' = mets w r'"
  by (simp_all add: Collector_def Let_def case_prod_beta)

lemma Collector_cells: "\<exists>xs. cells (heap (snd (Collector r job w))) = cells (heap w) @ xs"
  by (auto simp: Collector_def Let_def NewMetric_def alloc_def)

text \<open>One turn of the registration loop.\<close>

lemma register_one_logged:
  "logged (trace (register_one env p r w)) =
     logged (trace w) @
       (case Register env (registry w) (register_arg (heap (snd (Collector r (jobName p) w))) (fst (Collector r (jobName p) w))) of
          None \<Rightarrow> [] | Some err \<Rightarrow> [(LoggerTag p, err)])"
  by (simp add: register_one_def Let_def case_prod_beta Collector_frame split: option.splits)

lemma register_one_registry:
  "\<exists>xs. registry (register_one env p r w) = registry w @ xs"
  by (simp add: register_one_def Let_def case_prod_beta Collector_frame split: option.splits)

lemma register_one_mets: "r' \<noteq> r \<Longrightarrow> mets (register_one env p r w) r' = mets w r'"
  by (simp add: register_one_def Let_def case_prod_beta Collector_frame split: option.splits)

lemma register_one_mets_self: "mets (register_one env p r w) r = mets (snd (Collector r (jobName p) w)) r"
  by (simp add: register_one_def Let_def case_prod_beta split: option.splits)

lemma register_one_cells: "\<exists>xs. cells (heap (register_one env p r w)) = cells (heap w) @ xs"
  using Collector_cells [of r "jobName p" w]
  by (auto simp: register_one_def Let_def case_prod_beta split: option.splits)

lemma register_one_holds_name:
  "holds_name (registry w) job name \<Longrightarrow> holds_name (registry (register_one env p r w)) job name"
  using register_one_registry [of env p r w] by (auto simp: holds_name_append)

lemma register_one_logged_mono:
  "length (logged (trace w)) \<le> length (logged (trace (register_one env p r w)))"
  by (simp add: register_one_logged)

lemma range_register_logged_mono:
  "length (logged (trace w)) \<le> length (logged (trace (range_register env p ms w)))"
proof (induction ms arbitrary: w)
  case Nil
  then show ?case by simp
next
  case (Cons r rs)
  have "length (logged (trace w)) \<le> length (logged (trace (register_one env p r w)))"
    by (rule register_one_logged_mono)
  also have "\<dots> \<le> length (logged (trace (range_register env p rs (register_one env p r w))))"
    by (rule Cons.IH)
  finally show ?case by simp
qed

text \<open>
  A fresh definition of a recognized kind whose name is taken in the registry: its
  turn of the loop logs the error of the registry.
\<close>

lemma register_one_clash:
  assumes contract: "rejects_taken_names env"
      and fresh: "\<not> once (mets w r)" and kind: "recognized (Type (mets w r))"
      and taken: "holds_name (registry w) (jobName p) (Name (mets w r))"
  shows "length (logged (trace w)) < length (logged (trace (register_one env p r w)))"
proof -
  from Collector_fresh [OF fresh kind, of "jobName p"]
  obtain ob where ob: "opts_of_obj ob = opts_of (mets w r) (jobName p)"
    and c: "Collector r (jobName p) w =
                (Some (length (cells (heap w))),
                 w\<lparr>mets := (mets w)(r := (mets w r)\<lparr>collector := Some (length (cells (heap w))), once := True\<rparr>),
                    heap := (heap w)\<lparr>cells := cells (heap w) @ [\<lparr>obj = ob, updates = []\<rparr>]\<rparr>\<rparr>)"
    by blast
  have arg: "register_arg (heap (snd (Collector r (jobName p) w))) (fst (Collector r (jobName p) w))
               = Some (length (cells (heap w)), ob)"
    by (simp add: c register_arg_def obj_at_def)
  have "name_taken (registry w) ob"
    using taken by (simp add: name_taken_holds_name ob opts_of_def)
  with contract have "Register env (registry w) (Some (length (cells (heap w)), ob)) \<noteq> None"
    by (auto simp: rejects_taken_names_def)
  then show ?thesis
    by (auto simp: register_one_logged arg)
qed

lemma range_register_clash:
  assumes contract: "rejects_taken_names env"
  shows "r \<in> set ms \<Longrightarrow> \<not> once (mets w r) \<Longrightarrow> recognized (Type (mets w r)) \<Longrightarrow>
         holds_name (registry w) (jobName p) (Name (mets w r)) \<Longrightarrow>
         length (logged (trace w)) < length (logged (trace (range_register env p ms w)))"
proof (induction ms arbitrary: w)
  case Nil
  then show ?case by simp
next
  case (Cons h rs)
  show ?case
  proof (cases "h = r")
    case True
    have "length (logged (trace w)) < length (logged (trace (register_one env p r w)))"
      by (rule register_one_clash [OF contract Cons.prems(2,3,4)])
    also have "\<dots> \<le> length (logged (trace (range_register env p rs (register_one env p r w))))"
      by (rule range_register_logged_mono)
    finally show ?thesis using True by simp
  next
    case False
    let ?w1 = "register_one env p h w"
    have same: "mets ?w1 r = mets w r"
      using False by (simp add: register_one_mets)
    have "r \<in> set rs"
      using Cons.prems(1) False by simp
    moreover have "holds_name (registry ?w1) (jobName p) (Name (mets ?w1 r))"
      using Cons.prems(4) by (simp add: same register_one_holds_name)
    ultimately have "length (logged (trace ?w1)) < length (logged (trace (range_register env p rs ?w1)))"
      using Cons.IH [of ?w1] Cons.prems(2,3) by (simp add: same)
    moreover have "length (logged (trace w)) \<le> length (logged (trace ?w1))"
      by (rule register_one_logged_mono)
    ultimately show ?thesis by simp
  qed
qed

text \<open>
  The turn of a fresh definition of a recognized kind: either the registry's error is
  logged, or the registry now holds its name.
\<close>

lemma register_one_fresh:
  assumes fresh: "\<not> once (mets w r)" and kind: "recognized (Type (mets w r))"
  shows "length (logged (trace w)) < length (logged (trace (register_one env p r w)))
       \<or> holds_name (registry (register_one env p r w)) (jobName p) (Name (mets w r))"
proof -
  from Collector_fresh [OF fresh kind, of "jobName p"]
  obtain ob where ob: "opts_of_obj ob = opts_of (mets w r) (jobName p)"
    and c: "Collector r (jobName p) w =
                (Some (length (cells (heap w))),
                 w\<lparr>mets := (mets w)(r := (mets w r)\<lparr>collector := Some (length (cells (heap w))), once := True\<rparr>),
                    heap := (heap w)\<lparr>cells := cells (heap w) @ [\<lparr>obj = ob, updates = []\<rparr>]\<rparr>\<rparr>)"
    by blast
  have arg: "register_arg (heap (snd (Collector r (jobName p) w))) (fst (Collector r (jobName p) w))
               = Some (length (cells (heap w)), ob)"
    by (simp add: c register_arg_def obj_at_def)
  show ?thesis
  proof (cases "Register env (registry w) (Some (length (cells (heap w)), ob))")
    case None
    then have "registry (register_one env p r w) = registry w @ [(length (cells (heap w)), ob)]"
      by (simp add: register_one_def c register_arg_def obj_at_def)
    then have "holds_name (registry (register_one env p r w)) (jobName p) (Name (mets w r))"
      by (simp add: holds_name_def ob opts_of_def)
    then show ?thesis ..
  next
    case (Some err)
    then show ?thesis
      by (simp add: register_one_logged arg)
  qed
qed

lemma range_register_two:
  assumes contract: "rejects_taken_names env"
  shows "r1 \<in> set ms \<Longrightarrow> r2 \<in> set ms \<Longrightarrow> r1 \<noteq> r2 \<Longrightarrow> Name (mets w r1) = Name (mets w r2) \<Longrightarrow>
         \<not> once (mets w r1) \<Longrightarrow> \<not> once (mets w r2) \<Longrightarrow>
         recognized (Type (mets w r1)) \<Longrightarrow> recognized (Type (mets w r2)) \<Longrightarrow>
         length (logged (trace w)) < length (logged (trace (range_register env p ms w)))"
proof (induction ms arbitrary: w)
  case Nil
  then show ?case by simp
next
  case (Cons h rs)
  let ?w1 = "register_one env p h w"
  have mono1: "length (logged (trace w)) \<le> length (logged (trace ?w1))"
    by (rule register_one_logged_mono)
  have mono2: "length (logged (trace ?w1)) \<le> length (logged (trace (range_register env p rs ?w1)))"
    by (rule range_register_logged_mono)
  have first: "length (logged (trace w)) < length (logged (trace (range_register env p (h # rs) w)))"
    if h: "h = a" and other: "b \<noteq> a" "b \<in> set (h # rs)"
      and fa: "\<not> once (mets w a)" "recognized (Type (mets w a))"
      and fb: "\<not> once (mets w b)" "recognized (Type (mets w b))"
      and nm: "Name (mets w a) = Name (mets w b)" for a b
  proof -
    have same: "mets ?w1 b = mets w b"
      using h other(1) by (simp add: register_one_mets)
    have inrs: "b \<in> set rs"
      using h other by auto
    from register_one_fresh [OF fa, of env p]
    show ?thesis
    proof
      assume "length (logged (trace w)) < length (logged (trace (register_one env p a w)))"
      with mono2 h show ?thesis by simp
    next
      assume "holds_name (registry (register_one env p a w)) (jobName p) (Name (mets w a))"
      then have "holds_name (registry ?w1) (jobName p) (Name (mets ?w1 b))"
        using h nm same by simp
      then have "length (logged (trace ?w1)) < length (logged (trace (range_register env p rs ?w1)))"
        using range_register_clash [OF contract inrs, of ?w1 p] fb by (simp add: same)
      with mono1 show ?thesis by simp
    qed
  qed
  show ?case
  proof (cases "h = r1")
    case True
    then show ?thesis
      using first [of r1 r2] Cons.prems by auto
  next
    case r1: False
    show ?thesis
    proof (cases "h = r2")
      case True
      then show ?thesis
        using first [of r2 r1] Cons.prems by auto
    next
      case r2: False
      have "length (logged (trace ?w1)) < length (logged (trace (range_register env p rs ?w1)))"
        using Cons.IH [of ?w1] Cons.prems r1 r2 by (simp add: register_one_mets)
      with mono1 show ?thesis by simp
    qed
  qed
qed

text \<open>Once a definition is materialised, registration leaves it as it is.\<close>

lemma register_one_done: "once (mets w r) \<Longrightarrow> mets (register_one env p h w) r = mets w r"
  by (cases "h = r") (simp_all add: register_one_mets register_one_mets_self Collector_done)

lemma range_register_done:
  "once (mets w r) \<Longrightarrow> mets (range_register env p ms w) r = mets w r"
  by (induction ms arbitrary: w) (simp_all add: register_one_done)

lemma register_one_fresh_mets:
  assumes "\<not> once (mets w r)" and "recognized (Type (mets w r))"
  shows "mets (register_one env p r w) r = (mets w r)\<lparr>collector := Some (length (cells (heap w))), once := True\<rparr>"
    and "length (cells (heap (register_one env p r w))) = Suc (length (cells (heap w)))"
proof -
  from Collector_fresh [OF assms, of "jobName p"]
  obtain ob where c: "Collector r (jobName p) w =
                (Some (length (cells (heap w))),
                 w\<lparr>mets := (mets w)(r := (mets w r)\<lparr>collector := Some (length (cells (heap w))), once := True\<rparr>),
                    heap := (heap w)\<lparr>cells := cells (heap w) @ [\<lparr>obj = ob, updates = []\<rparr>]\<rparr>\<rparr>)"
    by blast
  show "mets (register_one env p r w) r = (mets w r)\<lparr>collector := Some (length (cells (heap w))), once := True\<rparr>"
    by (simp add: register_one_mets_self c)
  show "length (cells (heap (register_one env p r w))) = Suc (length (cells (heap w)))"
    by (simp add: register_one_def c Let_def split: option.splits)
qed

lemma register_one_cells_mono: "length (cells (heap w)) \<le> length (cells (heap (register_one env p r w)))"
  using register_one_cells [of env p r w] by auto

text \<open>A fresh definition of a recognized kind gets a collector allocated during the loop.\<close>

lemma range_register_allocates:
  "r \<in> set ms \<Longrightarrow> \<not> once (mets w r) \<Longrightarrow> recognized (Type (mets w r)) \<Longrightarrow>
   \<exists>a. collector (mets (range_register env p ms w) r) = Some a \<and> length (cells (heap w)) \<le> a"
proof (induction ms arbitrary: w)
  case Nil
  then show ?case by simp
next
  case (Cons h rs)
  let ?w1 = "register_one env p h w"
  show ?case
  proof (cases "h = r")
    case True
    have m: "mets ?w1 r = (mets w r)\<lparr>collector := Some (length (cells (heap w))), once := True\<rparr>"
      using True register_one_fresh_mets(1) [OF Cons.prems(2,3)] by simp
    then have "once (mets ?w1 r)" by simp
    then have "mets (range_register env p rs ?w1) r = mets ?w1 r"
      by (rule range_register_done)
    with m show ?thesis by simp
  next
    case False
    then have same: "mets ?w1 r = mets w r"
      by (simp add: register_one_mets)
    have "r \<in> set rs"
      using Cons.prems(1) False by simp
    with Cons.IH [of ?w1] Cons.prems(2,3) same
    obtain a where "collector (mets (range_register env p rs ?w1) r) = Some a" "length (cells (heap ?w1)) \<le> a"
      by auto
    moreover have "length (cells (heap w)) \<le> length (cells (heap ?w1))"
      by (rule register_one_cells_mono)
    ultimately show ?thesis by auto
  qed
qed

lemma range_register_distinct:
  "r1 \<in> set ms \<Longrightarrow> r2 \<in> set ms \<Longrightarrow> r1 \<noteq> r2 \<Longrightarrow>
   \<not> once (mets w r1) \<Longrightarrow> \<not> once (mets w r2) \<Longrightarrow>
   recognized (Type (mets w r1)) \<Longrightarrow> recognized (Type (mets w r2)) \<Longrightarrow>
   collector (mets (range_register env p ms w) r1) \<noteq> collector (mets (range_register env p ms w) r2)"
proof (induction ms arbitrary: w)
  case Nil
  then show ?case by simp
next
  case (Cons h rs)
  let ?w1 = "register_one env p h w"
  let ?w' = "range_register env p rs ?w1"
  have first: "collector (mets ?w' a) \<noteq> collector (mets ?w' b)"
    if h: "h = a" and other: "b \<noteq> a" "b \<in> set (h # rs)"
      and fa: "\<not> once (mets w a)" "recognized (Type (mets w a))"
      and fb: "\<not> once (mets w b)" "recognized (Type (mets w b))" for a b
  proof -
    have m: "mets ?w1 a = (mets w a)\<lparr>collector := Some (length (cells (heap w))), once := True\<rparr>"
      and len: "length (cells (heap ?w1)) = Suc (length (cells (heap w)))"
      using h register_one_fresh_mets [OF fa, of env p] by simp_all
    from m have "once (mets ?w1 a)" by simp
    then have "mets ?w' a = mets ?w1 a"
      by (rule range_register_done)
    with m have ca: "collector (mets ?w' a) = Some (length (cells (heap w)))"
      by simp
    have same: "mets ?w1 b = mets w b"
      using h other(1) by (simp add: register_one_mets)
    have "b \<in> set rs"
      using h other by auto
    with range_register_allocates [of b rs ?w1 env p] fb same
    obtain x where "collector (mets ?w' b) = Some x" "length (cells (heap ?w1)) \<le> x"
      by auto
    with ca len show ?thesis by simp
  qed
  show ?case
  proof (cases "h = r1")
    case True
    then show ?thesis
      using first [of r1 r2] Cons.prems by auto
  next
    case r1: False
    show ?thesis
    proof (cases "h = r2")
      case True
      then show ?thesis
        using first [of r2 r1] Cons.prems by auto
    next
      case r2: False
      then show ?thesis
        using Cons.IH [of ?w1] Cons.prems r1 by (simp add: register_one_mets)
    qed
  qed
qed

text \<open>
  Under the contract that the registry returns an error for a collector whose
  subsystem and name it already holds: two different fresh definitions of recognized
  kinds with one name, registered by one instance, leave at least one error of the
  registry in the log.
\<close>

lemma taken_name_is_logged:
  assumes contract: "rejects_taken_names env"
      and members: "r1 \<in> set (metrics p)" "r2 \<in> set (metrics p)"
      and different: "r1 \<noteq> r2"
      and name: "Name (mets w r1) = Name (mets w r2)"
      and fresh: "\<not> once (mets w r1)" "\<not> once (mets w r2)"
      and kinds: "recognized (Type (mets w r1))" "recognized (Type (mets w r2))"
  shows "length (logged (trace w)) < length (logged (trace (registerMetrics env p w)))"
  unfolding registerMetrics_def
  using range_register_two [OF contract members different name fresh kinds]
  by simp

lemma sample_Env_rejects_taken_names: "rejects_taken_names sample_Env"
  by (simp add: rejects_taken_names_def sample_Env_def)
















text \<open>
  A definition materialised earlier under another job keeps that job's collector:
  registered beside its namesake it meets no refusal, and again there are two collectors.
\<close>

lemma earlier_setup_outcome:
  "logged (trace (snd earlier_setup)) = []
   \<and> collector (mets (snd earlier_setup) 0) = Some 0
   \<and> collector (mets (snd earlier_setup) 1) = Some 1
   \<and> map fst (registry (snd earlier_setup)) = [0, 1]
   \<and> map (\<lambda>x. Subsystem (opts_of_obj (snd x))) (registry (snd earlier_setup)) = [''x'', ''gin'']"
  by (simp add: earlier_setup_def new_defs metric_defs heap_defs sample_defs example_defs
      RequestTotal_def RequestTotalWithMapper_def logged_def)

subsection \<open>The export path under the defaults\<close>

lemma default_setup_instance:
  "fst default_setup = (defaults sample_Env)\<lparr>router := Some 0, exportRouter := Some 0, metrics := [0]\<rparr>"
  by (simp add: default_setup_def new_defs Let_def)

lemma default_setup_world:
  "snd default_setup =
     \<lparr>mets = (\<lambda>r. customMetric)(0 := customMetric\<lparr>collector := Some 0, once := True\<rparr>),
      heap = \<lparr>cells = [\<lparr>obj = Counter \<lparr>Subsystem = ''gin'', opts_Name = ''test_metric'', Help = ''Counter test metric''\<rparr>, updates = []\<rparr>],
              clock = (\<lambda>n. 1000000 * int n), reads = 0\<rparr>,
      registry = [(0, Counter \<lparr>Subsystem = ''gin'', opts_Name = ''test_metric'', Help = ''Counter test metric''\<rparr>)],
      trace = [RouterUse 0, RouterGET 0 ''metrics'' False, RegisterCalled (Some 0)]\<rparr>"
  by (simp add: default_setup_def new_defs metric_defs heap_defs sample_defs example_defs)

text \<open>
  Claim C2, on the code. The instance is constructed with every path at its default.
  The export route is registered with the relative path \<open>metrics\<close>, which the engine
  serves at \<open>/metrics\<close>; the interceptor compares the path of the request, \<open>/metrics\<close>,
  with the string \<open>metrics\<close>. They differ: on a request to the export endpoint the
  interceptor calls \<open>c.Next()\<close> and then \<open>Exec\<close> on the registered metric, whose
  counter goes from 0 to 1. The request to the export path is counted.
\<close>

theorem C2_default_export_path_is_instrumented:
  "metricsPath (fst default_setup) = ''metrics''
   \<and> trace (snd default_setup) = [RouterUse 0, RouterGET 0 ''metrics'' False, RegisterCalled (Some 0)]
   \<and> fst (HandlerFunc (fst default_setup) sample_next (sample_Context ''/metrics'') (snd default_setup)) = None
   \<and> trace (snd (snd (HandlerFunc (fst default_setup) sample_next (sample_Context ''/metrics'') (snd default_setup))))
        = trace (snd default_setup) @ [NextCalled, ExecCalled 0]
   \<and> counter_value (heap (snd default_setup)) 0 = 0
   \<and> counter_value (heap (snd (snd (HandlerFunc (fst default_setup) sample_next (sample_Context ''/metrics'')
        (snd default_setup))))) 0 = 1"
  by (simp add: HandlerFunc_def default_setup_instance default_setup_world defaults_def DefaultMetricsPath_def
      metric_defs heap_defs sample_defs example_defs)

end
